theory Spec2Isabelle
  imports Complex_Main "HOL-Library.Word"
begin

unbundle bit_operations_syntax

section \<open>Common conventions\<close>

text \<open>
  The development embeds the numerical core of the transit radiative-transfer code:
  \<^verbatim>\<open>extinction.c\<close> (profile sizing, the extinction checkpoint file, the per-layer
  extinction computation) and \<^verbatim>\<open>slantpath.c\<close> (optical depth along a ray and the
  modulation integral).

  \<^item> A C \<^verbatim>\<open>double\<close>/\<^verbatim>\<open>float\<close> that is only computed with is a \<^typ>\<open>real\<close>: rounding
    is idealised, every comparison and branch of the source is kept.
  \<^item> A \<^verbatim>\<open>double\<close> that is only stored and loaded (the checkpoint file) is its 64-bit
    pattern, a \<^typ>\<open>64 word\<close>, laid out in memory as 8 little-endian bytes.
  \<^item> \<^verbatim>\<open>transiterror(TERR_CRITICAL, ...)\<close> ends the run: it is the \<open>Inl\<close> branch of a
    sum. \<^verbatim>\<open>transiterror(TERR_WARNING, ...)\<close> returns to the caller: it is an entry of
    the returned event list. \<^verbatim>\<open>transitprint\<close> only writes diagnostics and is left out.
\<close>

datatype error =
    Critical string      \<comment> \<open>\<^verbatim>\<open>transiterror(TERR_CRITICAL, ...)\<close>\<close>
  | OutOfBounds          \<comment> \<open>the C code would access an array outside its bounds\<close>
  | Uninitialised        \<comment> \<open>the C code would read an array element it never wrote\<close>

datatype event = Warning string   \<comment> \<open>\<^verbatim>\<open>transiterror(TERR_WARNING, ...)\<close>\<close>

section \<open>Persistence layer: \<^verbatim>\<open>savefile_extinct\<close> and \<^verbatim>\<open>restfile_extinct\<close>\<close>

type_synonym byte = "8 word"
type_synonym PREC_RES_bits = "64 word"

text \<open>Object representation of one \<^verbatim>\<open>PREC_RES\<close> (8 bytes, least significant first).\<close>

fun le_bytes :: "nat \<Rightarrow> PREC_RES_bits \<Rightarrow> byte list" where
  "le_bytes 0 w = []"
| "le_bytes (Suc n) w = ucast w # le_bytes n (drop_bit 8 w)"

fun double_of_bytes :: "byte list \<Rightarrow> PREC_RES_bits" where
  "double_of_bytes [] = 0"
| "double_of_bytes (b # bs) = ucast b OR push_bit 8 (double_of_bytes bs)"

definition double_bytes :: "PREC_RES_bits \<Rightarrow> byte list" where
  "double_bytes w = le_bytes 8 w"

text \<open>The memory of an array of \<^verbatim>\<open>PREC_RES\<close>, and the array such a memory holds.\<close>

definition bytes_of_doubles :: "PREC_RES_bits list \<Rightarrow> byte list" where
  "bytes_of_doubles e = concat (map double_bytes e)"

function doubles_of_bytes :: "byte list \<Rightarrow> PREC_RES_bits list" where
  "doubles_of_bytes bs =
     (if length bs < 8 then []
      else double_of_bytes (take 8 bs) # doubles_of_bytes (drop 8 bs))"
  by pat_completeness auto
termination
  by (relation "measure length") auto

declare doubles_of_bytes.simps [simp del]

text \<open>The memory of an array of \<^verbatim>\<open>_Bool\<close> (one byte each, 0 or 1).\<close>

definition bytes_of_flags :: "bool list \<Rightarrow> byte list" where
  "bytes_of_flags c = map (\<lambda>b. if b then 1 else 0) c"

definition flags_of_bytes :: "byte list \<Rightarrow> bool list" where
  "flags_of_bytes bs = map (\<lambda>x. x \<noteq> 0) bs"

text \<open>
  The file system: the bytes of each existing file, and which paths \<^verbatim>\<open>fopen(.., "w")\<close>
  can open. \<^verbatim>\<open>fopen(.., "r")\<close> returns \<^verbatim>\<open>NULL\<close> exactly on a path without contents.
  Writes are taken to complete (no device errors), and the streams are byte streams
  (POSIX: text mode translates nothing).
\<close>

record filesystem =
  contents :: "string \<Rightarrow> byte list option"
  writable :: "string \<Rightarrow> bool"

text \<open>\<^verbatim>\<open>const char mn[] = "@E@S@"\<close>, with its terminating NUL.\<close>

definition mn_tag :: "byte list" where
  "mn_tag = [0x40, 0x45, 0x40, 0x53, 0x40, 0]"

text \<open>
  \<^verbatim>\<open>fread(buf, size, n, fp)\<close> on the bytes \<open>buf\<close> of the destination and the unread
  bytes \<open>stream\<close> of the file: the bytes available, at most \<open>size * n\<close>, land at the
  start of the destination; the count of complete items is returned with the new
  destination and the rest of the stream.
\<close>

definition fread :: "byte list \<Rightarrow> nat \<Rightarrow> nat \<Rightarrow> byte list \<Rightarrow> nat \<times> byte list \<times> byte list" where
  "fread buf sz n stream =
     (let got = take (sz * n) stream
      in (length got div sz, got @ drop (length got) buf, drop (sz * n) stream))"

text \<open>\<^verbatim>\<open>fwrite(buf, size, n, fp)\<close>: the first \<open>size * n\<close> bytes of \<open>buf\<close> are appended.\<close>

definition fwrite :: "byte list \<Rightarrow> nat \<Rightarrow> nat \<Rightarrow> byte list \<Rightarrow> byte list" where
  "fwrite buf sz n stream = stream @ take (sz * n) buf"

text \<open>\<^verbatim>\<open>strncmp(a, b, n)\<close>: compares up to \<open>n\<close> characters and stops after a NUL.\<close>

fun strncmp :: "byte list \<Rightarrow> byte list \<Rightarrow> nat \<Rightarrow> int" where
  "strncmp (a # as) (b # bs) (Suc n) =
     (if a \<noteq> b then uint a - uint b else if a = 0 then 0 else strncmp as bs n)"
| "strncmp _ _ _ = 0"

text \<open>
  \<^verbatim>\<open>savefile_extinct(filename, e, c, nrad, nwav)\<close>. \<open>e\<close> is the flat grid \<^verbatim>\<open>e[0]\<close>
  (row \<open>r\<close> starts at \<open>r * nwav\<close>), \<open>c\<close> the computed flags. Returns the file system and
  the warnings raised.
\<close>

definition savefile_extinct ::
  "filesystem \<Rightarrow> string \<Rightarrow> PREC_RES_bits list \<Rightarrow> bool list \<Rightarrow> nat \<Rightarrow> nat
     \<Rightarrow> filesystem \<times> event list" where
  "savefile_extinct fs filename e c nrad nwav =
     (if \<not> writable fs filename
      then (fs, [Warning ''Extinction savefile cannot be opened for writing''])
      else
        let fp = [];
            fp = fwrite mn_tag 1 5 fp;
            fp = fwrite (bytes_of_doubles e) 8 (nrad * nwav) fp;
            fp = fwrite (bytes_of_flags c) 1 nrad fp
        in (fs\<lparr>contents := (contents fs)(filename \<mapsto> fp)\<rparr>, []))"

text \<open>
  \<^verbatim>\<open>restfile_extinct(filename, e, c, nrad, nwav)\<close>. Returns the warnings raised and the
  arrays \<open>e\<close> and \<open>c\<close> as the call leaves them. The local \<^verbatim>\<open>char mn[5]\<close> starts
  uninitialised; its bytes are compared only after all five have been read, so their
  initial value (here 0) never shows. The two last \<^verbatim>\<open>fread\<close> do not look at their
  return value: a short file fills what it can.
\<close>

definition restfile_extinct ::
  "filesystem \<Rightarrow> string \<Rightarrow> PREC_RES_bits list \<Rightarrow> bool list \<Rightarrow> nat \<Rightarrow> nat
     \<Rightarrow> event list \<times> PREC_RES_bits list \<times> bool list" where
  "restfile_extinct fs filename e c nrad nwav =
     (case contents fs filename of
        None \<Rightarrow> ([Warning ''Extinction savefile cannot be opened for reading''], e, c)
      | Some fp \<Rightarrow>
          (case fread (replicate 5 0) 1 5 fp of (k, mn, fp) \<Rightarrow>
             if k \<noteq> 5 \<or> strncmp mn mn_tag 5 \<noteq> 0
             then ([Warning ''Given filename is not a valid extinction file''], e, c)
             else
               (case fread (bytes_of_doubles e) 8 (nrad * nwav) fp of (_, eb, fp) \<Rightarrow>
                (case fread (bytes_of_flags c) 1 nrad fp of (_, cb, fp) \<Rightarrow>
                   ([], doubles_of_bytes eb, flags_of_bytes cb)))))"

text \<open>The bytes of a checkpoint file: the tag without its NUL, the grid, the flags.\<close>

definition extinct_file :: "PREC_RES_bits list \<Rightarrow> bool list \<Rightarrow> byte list" where
  "extinct_file e c = take 5 mn_tag @ bytes_of_doubles e @ bytes_of_flags c"

text \<open>A file system without files where every path can be created.\<close>

definition empty_disk :: filesystem where
  "empty_disk = \<lparr>contents = (\<lambda>_. None), writable = (\<lambda>_. True)\<rparr>"

section \<open>Profile synthesizer: \<^verbatim>\<open>getprofile\<close>\<close>

text \<open>
  C arithmetic. A floating-point operation rounds its exact result to the format: the
  rounding is the parameter \<open>fl\<close> of the functions that depend on it (the identity
  where the exact result is representable). \<^verbatim>\<open>(long)x\<close> on a floating value truncates
  towards zero; outside the range of \<^verbatim>\<open>long\<close> C leaves the conversion undefined, and
  the model returns what the conversion instruction of x86-64 does, the least
  \<^verbatim>\<open>long\<close>. Integer division truncates towards zero. Storing a \<^verbatim>\<open>long\<close> into an
  \<^verbatim>\<open>int\<close> keeps the low 32 bits (two's complement); the low 32 bits of a \<^verbatim>\<open>long\<close>
  expression are those of its exact value, whether or not it wrapped at 64 bits. Other
  signed arithmetic inside \<^verbatim>\<open>int\<close> is written on \<^typ>\<open>int\<close>: where it would overflow, C
  leaves the behaviour undefined, and the theorems state the range.
\<close>

definition c_trunc :: "real \<Rightarrow> int" where
  "c_trunc x = (if 0 \<le> x then \<lfloor>x\<rfloor> else \<lceil>x\<rceil>)"

definition long_of_double :: "real \<Rightarrow> int" where
  "long_of_double x =
     (if - (2 ^ 63) \<le> c_trunc x \<and> c_trunc x < 2 ^ 63 then c_trunc x else - (2 ^ 63))"

definition c_div :: "int \<Rightarrow> int \<Rightarrow> int" where
  "c_div a b = (if (a < 0) = (b < 0) then \<bar>a\<bar> div \<bar>b\<bar> else - (\<bar>a\<bar> div \<bar>b\<bar>))"

definition int_of_long :: "int \<Rightarrow> int" where
  "int_of_long v = (v + 2 ^ 31) mod 2 ^ 32 - 2 ^ 31"

text \<open>
  The point count \<^verbatim>\<open>nvgt\<close> of \<^verbatim>\<open>getprofile\<close>, as it stands after the two adjustments
  (source lines 72 to 85). The product, the quotient and the sum are floating-point
  operations.
\<close>

definition getprofile_nvgt :: "(real \<Rightarrow> real) \<Rightarrow> real \<Rightarrow> real \<Rightarrow> real \<Rightarrow> real \<Rightarrow> int \<Rightarrow> int" where
  "getprofile_nvgt fl dwn dop lor ta nwave =
     (let bigalpha = dop;
          bigalpha = (if bigalpha < lor then lor else bigalpha);
          wvgt = fl (bigalpha * ta);
          nvgt = int_of_long (2 * long_of_double (fl (fl (wvgt / dwn) + 0.5)) + 1);
          nvgt = (if nvgt < 2 then 3 else nvgt);
          nvgt = (if nvgt > 2 * nwave then 2 * nwave + 1 else nvgt)
      in nvgt)"

text \<open>
  \<^verbatim>\<open>getprofile(pr, dwn, dop, lor, ta, nwave)\<close>. The Voigt evaluator \<^verbatim>\<open>voigtn\<close> and the
  threshold \<^verbatim>\<open>_voigt_maxelements\<close> are defined outside this file and are parameters:
  \<open>voigtn nvgt width lor dop quick\<close> returns its status and the values it stores into
  the \<open>nvgt\<close> elements allocated for the profile. The result is the profile \<^verbatim>\<open>*pr\<close>
  and the returned half size.
\<close>

definition getprofile ::
  "(real \<Rightarrow> real) \<Rightarrow> (int \<Rightarrow> real \<Rightarrow> real \<Rightarrow> real \<Rightarrow> bool \<Rightarrow> int \<times> (nat \<Rightarrow> real)) \<Rightarrow> int
     \<Rightarrow> real \<Rightarrow> real \<Rightarrow> real \<Rightarrow> real \<Rightarrow> int \<Rightarrow> error + (real list \<times> int)" where
  "getprofile fl voigtn voigt_maxelements dwn dop lor ta nwave =
     (let nvgt = getprofile_nvgt fl dwn dop lor ta nwave
      in if nvgt < 0 then Inl (Critical ''Number of Voigt bins are not positive'')
         else
           (case voigtn nvgt (fl (dwn * of_int (c_div nvgt 2))) lor dop (nvgt > voigt_maxelements) of
              (j, pr) \<Rightarrow>
                if j \<noteq> 1 then Inl (Critical ''voigtn2() returned error code'')
                else Inr (map pr [0..<nat nvgt], c_div nvgt 2)))"

text \<open>
  The point count as the specification words it: from a computed size, forced to 3
  below 2 and clamped to \<open>2 * nwave + 1\<close> above \<open>2 * nwave\<close>; the computed size is
  \<open>2 * round (w / dwn) + 1\<close> with \<open>w = max dop lor * ta\<close>.
\<close>

definition spec_adjust :: "int \<Rightarrow> int \<Rightarrow> int" where
  "spec_adjust nwave n =
     (let n = (if n < 2 then 3 else n)
      in if n > 2 * nwave then 2 * nwave + 1 else n)"

definition spec_point_count :: "real \<Rightarrow> real \<Rightarrow> real \<Rightarrow> real \<Rightarrow> int \<Rightarrow> int" where
  "spec_point_count dwn dop lor ta nwave =
     spec_adjust nwave (2 * round (max dop lor * ta / dwn) + 1)"

text \<open>
  The floating-point value that \<^verbatim>\<open>getprofile\<close> converts to \<^verbatim>\<open>long\<close>:
  \<^verbatim>\<open>wvgt/dwn+0.5\<close> with \<^verbatim>\<open>wvgt = bigalpha*ta\<close>.
\<close>

definition rounded_quotient :: "(real \<Rightarrow> real) \<Rightarrow> real \<Rightarrow> real \<Rightarrow> real \<Rightarrow> real \<Rightarrow> real" where
  "rounded_quotient fl dwn dop lor ta = fl (fl (fl (max dop lor * ta) / dwn) + 0.5)"

text \<open>A Voigt evaluator that succeeds with a flat profile, for the examples.\<close>

definition voigtn_flat :: "int \<Rightarrow> real \<Rightarrow> real \<Rightarrow> real \<Rightarrow> bool \<Rightarrow> int \<times> (nat \<Rightarrow> real)" where
  "voigtn_flat nvgt width lor dop quick = (1, \<lambda>i. 1)"

section \<open>Bracketing searches\<close>

text \<open>
  Bisection between a lower index \<open>lo\<close> and an upper index \<open>hi\<close>: the interval is halved
  on the comparison of the target with the middle element until the two indices are
  adjacent, and the lower one is the result. The element at \<open>hi\<close> itself is never read.
\<close>

function bisect :: "real list \<Rightarrow> nat \<Rightarrow> nat \<Rightarrow> real \<Rightarrow> nat" where
  "bisect arr lo hi val =
     (if hi - lo \<le> 1 then lo
      else let mid = (lo + hi) div 2
           in if val < arr ! mid then bisect arr lo mid val else bisect arr mid hi val)"
  by pat_completeness auto
termination
  by (relation "measure (\<lambda>(arr, lo, hi, val). hi - lo)") auto

declare bisect.simps [simp del]

text \<open>
  Modelled from the spec: \<^verbatim>\<open>binsearch(arr, i, f, val)\<close>, which \<^verbatim>\<open>totaltau1\<close> calls and
  whose source is not among the files. The specification and the comment at the call
  give: a binary search of the radius grid for the bin \<open>rs\<close> with
  \<open>arr[rs] \<le> val < arr[rs + 1]\<close>; the value \<open>-5\<close> when the target lies at or beyond the
  last (outermost) sample; another negative value when it lies below the first one.
  The specification does not give that other value: \<open>-4\<close> stands for it, and the caller
  treats every negative value but \<open>-5\<close> alike.
\<close>

definition binsearch :: "real list \<Rightarrow> int \<Rightarrow> int \<Rightarrow> real \<Rightarrow> int" where
  "binsearch arr i f val =
     (if val < arr ! nat i then - 4
      else if arr ! nat f \<le> val then - 5
      else int (bisect arr (nat i) (nat f) val))"

text \<open>
  Modelled from the spec: \<^verbatim>\<open>binsearchapprox(arr, val, lo, hi)\<close>, the width-grid lookup
  that \<^verbatim>\<open>computemolext\<close> and \<^verbatim>\<open>interpolmolext\<close> call with \<open>lo = 0\<close> and \<open>hi\<close> the number
  of grid points, and whose source is not among the files. The specification gives: a
  binary search for the index with \<open>grid[index] \<le> target < grid[index + 1]\<close>, a target
  below \<open>grid[lo]\<close> giving \<open>lo\<close> and a target above \<open>grid[hi - 1]\<close> giving \<open>hi - 1\<close>.
\<close>

definition binsearchapprox :: "real list \<Rightarrow> real \<Rightarrow> int \<Rightarrow> int \<Rightarrow> int" where
  "binsearchapprox arr val lo hi = int (bisect arr (nat lo) (nat hi) val)"

section \<open>Slant path, straight rays: \<^verbatim>\<open>totaltau1\<close>\<close>

text \<open>
  \<^verbatim>\<open>totaltau1(b, rad, refr, ex, nrad)\<close>. The function writes into the arrays \<open>rad\<close> and
  \<open>ex\<close> of its caller, so the model returns them with the optical depth. Defined
  outside the file and taken as parameters: \<^verbatim>\<open>binsearch\<close>; \<^verbatim>\<open>interp_parab(x, y, r)\<close>,
  which is given the two arrays from the position of its pointer arguments on; and
  \<open>integ xs ys a b\<close> for the integral from \<open>a\<close> to \<open>b\<close> of the GSL cubic spline through
  the points \<open>(xs, ys)\<close>.

  After \<^verbatim>\<open>rad += rs; ex += rs; nrad -= rs\<close> the code reads the elements 0 and 1 of the
  advanced arrays, element 2 when more than two remain, and element \<open>-1\<close> when exactly
  two remain. Where one of these lies outside the \<open>nrad\<close> samples of the caller, C
  leaves the behaviour undefined; the model answers \<open>OutOfBounds\<close>.
\<close>

definition totaltau1 ::
  "(real list \<Rightarrow> int \<Rightarrow> int \<Rightarrow> real \<Rightarrow> int) \<Rightarrow> (real list \<Rightarrow> real list \<Rightarrow> real \<Rightarrow> real)
     \<Rightarrow> (real list \<Rightarrow> real list \<Rightarrow> real \<Rightarrow> real \<Rightarrow> real)
     \<Rightarrow> real \<Rightarrow> real list \<Rightarrow> real \<Rightarrow> real list \<Rightarrow> int
     \<Rightarrow> error + (real \<times> real list \<times> real list)" where
  "totaltau1 binsearch_fn interp_parab integ b rad refr ex nrad =
     (let r0 = b / refr;
          rs = binsearch_fn rad 0 (nrad - 1) r0
      in if rs = - 5 then Inr (0, rad, ex)
         else if rs < 0
         then Inl (Critical ''Closest approach value is outside sampled radius range'')
         else
           let n = nrad - rs;
               k = nat rs
           in if \<not> (2 \<le> n \<and> nrad \<le> int (length rad) \<and> nrad \<le> int (length ex)
                      \<and> (n = 2 \<longrightarrow> 1 \<le> rs))
              then Inl OutOfBounds
              else
                let tmpex = ex ! k;
                    tmprad = rad ! k;
                    ex = ex[k := (if n = 2 then interp_parab (drop (k - 1) rad) (drop (k - 1) ex) r0
                                  else interp_parab (drop k rad) (drop k ex) r0)];
                    rad = rad[k := r0];
                    dr = rad ! (k + 1) - rad ! k;
                    res =
                      (if n > 2 then
                         let Dr = rad ! (k + 2) - rad ! (k + 1);
                             cte = dr * (dr + 2 * r0);
                             s = 0 # map (\<lambda>i. sqrt (cte + (real i - 1) * Dr
                                                   * (2 * (r0 + dr) + (real i - 1) * Dr)))
                                       [1..<nat n]
                         in integ s (take (nat n) (drop k ex)) 0 (s ! (nat n - 1))
                       else if ex ! (k + 1) = ex ! k
                       then ex ! k * r0 * sqrt (rad ! (k + 1) * rad ! (k + 1) / r0 / r0 - 1)
                       else
                         let alpha = (ex ! (k + 1) - ex ! k) / dr;
                             rm = rad ! (k + 1)
                         in if alpha < 0
                            then - alpha * (rm * sqrt (rm * rm - r0 * r0) - r0 * r0
                                   * ln (sqrt (rm * rm / r0 / r0 - 1) + rm / r0)) / 2
                            else alpha * (rm * sqrt (rm * rm - r0 * r0) + r0 * r0
                                   * ln (sqrt (rm * rm / r0 / r0 - 1) + rm / r0)) / 2);
                    ex = ex[k := tmpex];
                    rad = rad[k := tmprad]
                in Inr (2 * res, rad, ex))"

section \<open>Modulation integrator: \<^verbatim>\<open>modulation1\<close>\<close>

text \<open>
  The sampling descriptor \<^verbatim>\<open>prop_samp\<close> (number of elements \<^verbatim>\<open>n\<close>, spacing \<^verbatim>\<open>d\<close>,
  initial value \<^verbatim>\<open>i\<close>, oversampling \<^verbatim>\<open>o\<close>, values \<^verbatim>\<open>v\<close>, units factor \<^verbatim>\<open>fct\<close>) and the
  part of \<^verbatim>\<open>struct geometry\<close> that is used. The fields carry a prefix, since the
  one-letter names of the source are the variables of the functions below; the
  parameter \<^verbatim>\<open>last\<close> is written \<open>lst\<close>.
\<close>

record prop_samp =
  samp_n :: int
  samp_d :: real
  samp_i :: real
  samp_o :: int
  samp_v :: "real list"
  samp_fct :: real

record geometry =
  starrad :: real
  starradfct :: real

text \<open>
  The local arrays \<^verbatim>\<open>rinteg[ipn]\<close> and \<^verbatim>\<open>ipv[ipn]\<close> are not initialised: an element is
  \<open>None\<close> until the function stores into it. The first loop of \<^verbatim>\<open>modulation1\<close>,
  \<^verbatim>\<open>for(i=0;i<=last;i++)\<close>, returns the index it stops at and the two arrays.
\<close>

function mod_fill ::
  "real list \<Rightarrow> prop_samp \<Rightarrow> int \<Rightarrow> int \<Rightarrow> (nat \<Rightarrow> real option) \<times> (nat \<Rightarrow> real option)
     \<Rightarrow> error + (int \<times> (nat \<Rightarrow> real option) \<times> (nat \<Rightarrow> real option))" where
  "mod_fill tau ip lst i (ipv, rinteg) =
     (if i \<le> lst then
        if \<not> (0 \<le> i \<and> i < samp_n ip \<and> i < int (length tau)
                \<and> lst - i < int (length (samp_v ip)))
        then Inl OutOfBounds
        else
          let x = samp_v ip ! nat (lst - i) * samp_fct ip
          in mod_fill tau ip lst (i + 1)
               (ipv(nat i := Some x), rinteg(nat i := Some (exp (- (tau ! nat i)) * x)))
      else Inr (i, ipv, rinteg))"
  by pat_completeness auto
termination
  by (relation "measure (\<lambda>(tau, ip, lst, i, a). nat (lst + 1 - i))") auto

declare mod_fill.simps [simp del]

text \<open>The second loop, \<^verbatim>\<open>for(;i<last;i++)\<close>, after \<^verbatim>\<open>last\<close> has been moved.\<close>

function mod_pad ::
  "prop_samp \<Rightarrow> int \<Rightarrow> int \<Rightarrow> (nat \<Rightarrow> real option) \<times> (nat \<Rightarrow> real option)
     \<Rightarrow> error + (int \<times> (nat \<Rightarrow> real option) \<times> (nat \<Rightarrow> real option))" where
  "mod_pad ip lst i (ipv, rinteg) =
     (if i < lst then
        if \<not> (0 \<le> i \<and> i < samp_n ip \<and> lst - i < int (length (samp_v ip)))
        then Inl OutOfBounds
        else
          mod_pad ip lst (i + 1)
            (ipv(nat i := Some (samp_v ip ! nat (lst - i) * samp_fct ip)),
             rinteg(nat i := Some 0))
      else Inr (i, ipv, rinteg))"
  by pat_completeness auto
termination
  by (relation "measure (\<lambda>(ip, lst, i, a). nat (lst - i))") auto

declare mod_pad.simps [simp del]

text \<open>
  \<^verbatim>\<open>modulation1(tau, last, toomuch, ip, sg)\<close>. \<open>integ xs ys a b\<close> stands for the integral
  from \<open>a\<close> to \<open>b\<close> of the GSL cubic spline through \<open>(xs, ys)\<close>. The spline is given
  the first \<open>lst\<close> elements of both arrays: an element among them that was never
  stored has an indeterminate value in C, and the model answers \<open>Uninitialised\<close>.
\<close>

definition modulation1 ::
  "(real list \<Rightarrow> real list \<Rightarrow> real \<Rightarrow> real \<Rightarrow> real)
     \<Rightarrow> real list \<Rightarrow> int \<Rightarrow> real \<Rightarrow> prop_samp \<Rightarrow> geometry \<Rightarrow> error + real" where
  "modulation1 integ tau lst toomuch ip sg =
     (let srad = starrad sg * starradfct sg;
          ipn = samp_n ip
      in case mod_fill tau ip lst 0 (\<lambda>_. None, \<lambda>_. None) of
           Inl err \<Rightarrow> Inl err
         | Inr (i, ipv, rinteg) \<Rightarrow>
             let lst = lst + 2;
                 lst = (if lst > ipn - 1 then ipn - 1 else lst)
             in case mod_pad ip lst i (ipv, rinteg) of
                  Inl err \<Rightarrow> Inl err
                | Inr (i, ipv, rinteg) \<Rightarrow>
                    let lst = lst + 1
                    in if lst < 3
                       then Inl (Critical ''Condition failed, less than 3 items for radial integration'')
                       else
                         (case (those (map ipv [0..<nat lst]), those (map rinteg [0..<nat lst])) of
                            (Some xs, Some ys) \<Rightarrow>
                              let res = integ xs ys (xs ! 0) (xs ! (nat lst - 1));
                                  res = 2 * res + srad * srad
                                        - xs ! (nat lst - 1) * xs ! (nat lst - 1)
                                        + exp (- toomuch) * xs ! 0 * xs ! 0;
                                  res = res * (1 / srad / srad)
                              in Inr res
                          | _ \<Rightarrow> Inl Uninitialised))"

text \<open>
  The trapezoid sum over the sample points. Through points on one straight line the
  cubic spline is that line, and its integral over the whole range is this sum: on such
  data it computes what the spline integrator does.
\<close>

fun trapezoid :: "real list \<Rightarrow> real list \<Rightarrow> real" where
  "trapezoid (x1 # x2 # xs) (y1 # y2 # ys) =
     (x2 - x1) * (y1 + y2) / 2 + trapezoid (x2 # xs) (y2 # ys)"
| "trapezoid _ _ = 0"

text \<open>Three impact parameters 7, 6, 5 (descending) and a star of radius 10.\<close>

definition ip_765 :: prop_samp where
  "ip_765 = \<lparr>samp_n = 3, samp_d = 1, samp_i = 7, samp_o = 1, samp_v = [7, 6, 5], samp_fct = 1\<rparr>"

definition star_10 :: geometry where
  "star_10 = \<lparr>starrad = 10, starradfct = 1\<rparr>"

text \<open>Five impact parameters 9 to 5 (descending).\<close>

definition ip_98765 :: prop_samp where
  "ip_98765 = \<lparr>samp_n = 5, samp_d = 1, samp_i = 9, samp_o = 1, samp_v = [9, 8, 7, 6, 5],
                samp_fct = 1\<rparr>"

section \<open>Extinction grid builder: \<^verbatim>\<open>computemolext\<close> and \<^verbatim>\<open>interpolmolext\<close>\<close>

text \<open>
  The parts of \<^verbatim>\<open>struct transit\<close> that the two functions read, flattened into one record:
  the opacity structure (\<^verbatim>\<open>tr->ds.op\<close>), the isotopes, the molecules, the line
  transitions with their number \<^verbatim>\<open>n_l\<close>, the two wavenumber samplings, the atmosphere
  temperatures, the oversampling divisors and the extinction threshold. An array of
  structures with one field in use (\<^verbatim>\<open>isof[i].m\<close>, \<^verbatim>\<open>isov[i].z[r]\<close>, \<^verbatim>\<open>molec[j].d[r]\<close>) is
  the array of that field. The physical constants are macros of a header that is not
  among the files; they are collected in a record and passed as a parameter.

  Array reads are written \<open>idx xs i\<close>. Outside the array C leaves the behaviour
  undefined and the value of the model is unspecified; none of the properties proved
  depends on such a value.
\<close>

abbreviation idx :: "'a list \<Rightarrow> int \<Rightarrow> 'a" where
  "idx xs i \<equiv> xs ! nat i"

record phys_consts =
  KB :: real
  AMU :: real
  SQRTLN2 :: real
  LS :: real
  PI :: real
  SIGCTE :: real
  EXPCTE :: real

record transit =
  op_profile :: "real list list list"
  op_profsize :: "int list list"
  op_aDop :: "real list"
  op_aLor :: "real list"
  op_nDop :: int
  op_nLor :: int
  op_temp :: "real list"
  op_Ntemp :: int
  op_molID :: "int list"
  op_Nmol :: int
  op_Nwave :: int
  op_o :: "real list list list list"
  iso_n_i :: int
  iso_imol :: "int list"
  iso_m :: "real list"
  iso_isoratio :: "real list"
  iso_z :: "real list list"
  mol_nmol :: int
  mol_radius :: "real list"
  mol_mass :: "real list"
  mol_d :: "real list list"
  mol_ID :: "int list"
  lt_wl :: "real list"
  lt_wfct :: real
  lt_isoid :: "int list"
  lt_gf :: "real list"
  lt_efct :: real
  lt_elow :: "real list"
  li_n_l :: int
  owns :: prop_samp
  wns :: prop_samp
  atm_t :: "real list"
  atm_tfct :: real
  ndivs :: int
  odivs :: "int list"
  ex_ethresh :: real

text \<open>
  The loop over the isotopes (source lines 436 to 465): the Lorentz and Doppler widths,
  the running minimum width and the indices into the width grids. \<^verbatim>\<open>binsearchapprox\<close>
  is a parameter of the model of \<^verbatim>\<open>computemolext\<close>.
\<close>

record widths =
  alphal :: "real list"
  alphad :: "real list"
  idop :: "int list"
  ilor :: "int list"
  minwidth :: real
  maxwidth :: real

definition lorentz_sum :: "transit \<Rightarrow> int \<Rightarrow> int \<Rightarrow> real" where
  "lorentz_sum tr r i =
     fold (\<lambda>j acc.
             let csdiameter = mol_radius tr ! j + idx (mol_radius tr) (idx (iso_imol tr) i)
             in acc + (mol_d tr ! j) ! nat r / mol_mass tr ! j * csdiameter * csdiameter
                      * sqrt (1 / idx (iso_m tr) i + 1 / mol_mass tr ! j))
          [0..<nat (mol_nmol tr)] 0"

definition isotope_widths ::
  "(real list \<Rightarrow> real \<Rightarrow> int \<Rightarrow> int \<Rightarrow> int) \<Rightarrow> transit \<Rightarrow> int \<Rightarrow> real \<Rightarrow> real \<Rightarrow> widths" where
  "isotope_widths binsearchapprox_fn tr r fdoppler florentz =
     fold (\<lambda>i w.
             let al = lorentz_sum tr r (int i) * florentz;
                 ad = fdoppler / sqrt (iso_m tr ! i);
                 maxw = max al (ad * samp_v (wns tr) ! 0)
             in w\<lparr>alphal := (alphal w)[i := al],
                  alphad := (alphad w)[i := ad],
                  maxwidth := maxw,
                  minwidth := min (minwidth w) maxw,
                  idop := (idop w)[i := binsearchapprox_fn (op_aDop tr) (ad * samp_v (wns tr) ! 0)
                                           0 (op_nDop tr)],
                  ilor := (ilor w)[i := binsearchapprox_fn (op_aLor tr) al 0 (op_nLor tr)]\<rparr>)
          [0..<nat (iso_n_i tr)]
          \<lparr>alphal = replicate (nat (iso_n_i tr)) 0, alphad = replicate (nat (iso_n_i tr)) 0,
           idop = replicate (nat (iso_n_i tr)) 0, ilor = replicate (nat (iso_n_i tr)) 0,
           minwidth = 100000, maxwidth = 0\<rparr>"

text \<open>
  The choice of the dynamic oversampling factor (source lines 468 to 475). The scan
  \<^verbatim>\<open>for (i=1; i < tr->ndivs; i++) if (...) break;\<close> returns the index it stops at.
\<close>

function odivs_scan :: "int \<Rightarrow> int list \<Rightarrow> real \<Rightarrow> real \<Rightarrow> int \<Rightarrow> int" where
  "odivs_scan ndivs_v odivs_v spacing minw i =
     (if i < ndivs_v then
        if real_of_int (idx odivs_v i) * spacing \<ge> 0.5 * minw then i
        else odivs_scan ndivs_v odivs_v spacing minw (i + 1)
      else i)"
  by pat_completeness auto
termination
  by (relation "measure (\<lambda>(ndivs_v, odivs_v, spacing, minw, i). nat (ndivs_v - i))") auto

declare odivs_scan.simps [simp del]

text \<open>
  \<open>dynamic_sampling\<close> returns \<^verbatim>\<open>ofactor\<close>, \<^verbatim>\<open>ddwn\<close> and \<^verbatim>\<open>dnwn\<close>. Its arguments are
  \<^verbatim>\<open>tr->ndivs\<close>, \<^verbatim>\<open>tr->odivs\<close>, \<^verbatim>\<open>dwn = tr->wns.d/tr->wns.o\<close>, \<^verbatim>\<open>tr->owns.o\<close>,
  \<^verbatim>\<open>odwn = tr->owns.d/tr->owns.o\<close>, \<^verbatim>\<open>onwn = tr->owns.n\<close> and the minimum width.
\<close>

definition dynamic_sampling ::
  "int \<Rightarrow> int list \<Rightarrow> real \<Rightarrow> int \<Rightarrow> real \<Rightarrow> int \<Rightarrow> real \<Rightarrow> int \<times> real \<times> int" where
  "dynamic_sampling ndivs_v odivs_v dwn owns_o odwn onwn minw =
     (let i = odivs_scan ndivs_v odivs_v (dwn / real_of_int owns_o) minw 1;
          ofactor = idx odivs_v (i - 1);
          ddwn = odwn * real_of_int ofactor;
          dnwn = 1 + c_div (onwn - 1) ofactor
      in (ofactor, ddwn, dnwn))"

text \<open>
  The strength of the line \<open>lnx\<close> (the \<^verbatim>\<open>ln\<close> of the source) of isotope \<open>i\<close> at
  wavenumber \<open>wavn\<close>, without the broadening factor: the expression that the source
  writes out three times.
\<close>

definition propto :: "phys_consts \<Rightarrow> transit \<Rightarrow> int \<Rightarrow> real \<Rightarrow> int \<Rightarrow> int \<Rightarrow> real \<Rightarrow> real" where
  "propto k tr r temp i lnx wavn =
     idx (idx (mol_d tr) (idx (iso_imol tr) i)) r * idx (iso_isoratio tr) i
       * SIGCTE k * idx (lt_gf tr) lnx
       * exp (- EXPCTE k * lt_efct tr * idx (lt_elow tr) lnx / temp)
       * (1 - exp (- EXPCTE k * wavn / temp)) / idx (iso_m tr) i
       / idx (idx (iso_z tr) i) r"

text \<open>
  The wavenumber \<^verbatim>\<open>1.0/(lt->wl[ln]*lt->wfct)\<close> of a line. Where the product is 0 the
  quotient of C is an infinity, not a real: \<open>line_wn_finite\<close> tells the two cases apart.
  An infinite wavenumber satisfies one of the two range tests of the passes over the
  lines (below \<^verbatim>\<open>tr->wns.i\<close> or above the last oversampled wavenumber), so that the line
  is passed over, and it fails the test of the co-adding loop.
\<close>

definition line_wn_finite :: "transit \<Rightarrow> int \<Rightarrow> bool" where
  "line_wn_finite tr lnx \<longleftrightarrow> idx (lt_wl tr) lnx * lt_wfct tr \<noteq> 0"

definition line_wn :: "transit \<Rightarrow> int \<Rightarrow> real" where
  "line_wn tr lnx = 1 / (idx (lt_wl tr) lnx * lt_wfct tr)"

text \<open>
  The first pass over the lines (source lines 482 to 507): the maximum \<^verbatim>\<open>kmax\<close>. The
  minimum \<^verbatim>\<open>kmin\<close> is only printed and is left out.
\<close>

definition first_pass :: "phys_consts \<Rightarrow> transit \<Rightarrow> int \<Rightarrow> real \<Rightarrow> real" where
  "first_pass k tr r temp =
     fold (\<lambda>lnx kmax.
             let wavn = line_wn tr (int lnx);
                 i = lt_isoid tr ! lnx
             in if \<not> line_wn_finite tr (int lnx) then kmax
                else if wavn < samp_i (wns tr) then kmax
                else if wavn > idx (samp_v (owns tr)) (samp_n (owns tr) - 1) then kmax
                else
                  let propto_k = propto k tr r temp i (int lnx) wavn
                  in if kmax = 0 then propto_k else max kmax propto_k)
          [0..<nat (li_n_l tr)] 0"

text \<open>
  The co-adding loop (source lines 532 to 546), on the line index \<^verbatim>\<open>ln\<close>, the strength
  \<^verbatim>\<open>propto_k\<close> and the counter \<^verbatim>\<open>nadd\<close>. \<open>i\<close> is the isotope of the line the loop
  was entered with and \<open>iown\<close> the index of its oversampled wavenumber. The loop
  stands inside \<^verbatim>\<open>for(ln=0; ln<nlines; ln++)\<close>; that bound is part of the test here.
\<close>

function coadd ::
  "phys_consts \<Rightarrow> transit \<Rightarrow> int \<Rightarrow> real \<Rightarrow> real \<Rightarrow> int \<Rightarrow> int \<Rightarrow> int \<times> real \<times> int
     \<Rightarrow> int \<times> real \<times> int" where
  "coadd k tr r temp odwn i iown (lnx, propto_k, nadd_v) =
     (if lnx < li_n_l tr \<and> lnx \<noteq> li_n_l tr - 1 \<and> idx (lt_isoid tr) (lnx + 1) = i then
        let next_wn = line_wn tr (lnx + 1)
        in if line_wn_finite tr (lnx + 1) \<and> \<bar>next_wn - idx (samp_v (owns tr)) iown\<bar> < odwn
           then coadd k tr r temp odwn i iown
                  (lnx + 1, propto_k + propto k tr r temp i (lnx + 1) next_wn, nadd_v + 1)
           else (lnx, propto_k, nadd_v)
      else (lnx, propto_k, nadd_v))"
  by pat_completeness auto
termination
  by (relation "measure (\<lambda>(k, tr, r, temp, odwn, i, iown, lnx, p). nat (li_n_l tr - lnx))") auto

declare coadd.simps [simp del]

text \<open>
  What the second pass carries from line to line: the fine accumulator \<^verbatim>\<open>ktmp\<close>, the
  Doppler indices \<^verbatim>\<open>idop\<close> (re-resolved per line) and the three counters.
\<close>

record accum =
  ktmp :: "real list"
  cur_idop :: "int list"
  nadd :: int
  nskip :: int
  neval :: int

text \<open>
  The end of a turn of the second loop over the lines (source lines 548 to 598), with
  the strength \<^verbatim>\<open>propto_k\<close> and the counter \<^verbatim>\<open>nadd\<close> as the co-adding loop left them:
  the culling test, then the profile lookup and the accumulation into \<^verbatim>\<open>ktmp\<close>.
\<close>

definition line_contrib ::
  "(real list \<Rightarrow> real \<Rightarrow> int \<Rightarrow> int \<Rightarrow> int) \<Rightarrow> transit \<Rightarrow> real \<Rightarrow> int \<Rightarrow> int \<Rightarrow> real \<Rightarrow> widths
     \<Rightarrow> real \<Rightarrow> int \<Rightarrow> int \<Rightarrow> real \<Rightarrow> int \<Rightarrow> accum \<Rightarrow> accum" where
  "line_contrib binsearchapprox_fn tr ddwn ofactor dnwn kmax w wavn i iown propto_k nadd_v st =
     (if propto_k < ex_ethresh tr * kmax
      then st\<lparr>nadd := nadd_v, nskip := nskip st + 1\<rparr>
      else
        let idwn = c_trunc ((wavn - samp_i (wns tr)) / ddwn);
            idop_v = (if idx (alphad w) i * wavn / idx (alphal w) i \<ge> 0.1
                      then (cur_idop st)
                             [nat i := binsearchapprox_fn (op_aDop tr)
                                         (idx (alphad w) i * wavn) 0 (op_nDop tr)]
                      else cur_idop st);
            psize = idx (idx (op_profsize tr) (idx idop_v i)) (idx (ilor w) i);
            subw = iown - idwn * ofactor;
            offset = ofactor * idwn - psize + subw;
            minj = idwn - c_div (psize - subw) ofactor;
            maxj = idwn + c_div (psize + subw) ofactor;
            minj = (if minj < 0 then 0 else minj);
            maxj = (if maxj > dnwn then dnwn else maxj);
            prof = idx (idx (op_profile tr) (idx idop_v i)) (idx (ilor w) i);
            ktmp_v = fold (\<lambda>j kt. kt[nat j := idx kt j
                                      + propto_k * idx prof (ofactor * j - offset)])
                          [minj..maxj - 1] (ktmp st)
        in st\<lparr>ktmp := ktmp_v, cur_idop := idop_v, nadd := nadd_v, neval := neval st + 1\<rparr>)"

text \<open>The index of the closest oversampled wavenumber (source lines 527 to 529).\<close>

definition closest_iown :: "transit \<Rightarrow> real \<Rightarrow> real \<Rightarrow> int" where
  "closest_iown tr odwn wavn =
     (let iown = c_trunc ((wavn - samp_i (wns tr)) / odwn)
      in if \<bar>wavn - idx (samp_v (owns tr)) (iown + 1)\<bar> < \<bar>wavn - idx (samp_v (owns tr)) iown\<bar>
         then iown + 1 else iown)"

text \<open>
  One turn of the second loop over the lines (source lines 511 to 598), up to the
  \<^verbatim>\<open>ln++\<close> of the loop header: the index \<^verbatim>\<open>ln\<close> as the body leaves it, and the state.
\<close>

definition line_step ::
  "phys_consts \<Rightarrow> (real list \<Rightarrow> real \<Rightarrow> int \<Rightarrow> int \<Rightarrow> int) \<Rightarrow> transit \<Rightarrow> int \<Rightarrow> real \<Rightarrow> real
     \<Rightarrow> real \<Rightarrow> int \<Rightarrow> int \<Rightarrow> real \<Rightarrow> widths \<Rightarrow> int \<Rightarrow> accum \<Rightarrow> int \<times> accum" where
  "line_step k binsearchapprox_fn tr r temp odwn ddwn ofactor dnwn kmax w lnx st =
     (let wavn = line_wn tr lnx;
          i = idx (lt_isoid tr) lnx
      in if \<not> line_wn_finite tr lnx then (lnx, st)
         else if wavn < samp_i (wns tr) then (lnx, st)
         else if wavn > idx (samp_v (owns tr)) (samp_n (owns tr) - 1) then (lnx, st)
         else
           let propto_k = propto k tr r temp i lnx wavn;
               iown = closest_iown tr odwn wavn
           in case coadd k tr r temp odwn i iown (lnx, propto_k, nadd st) of
                (lnx, propto_k, nadd_v) \<Rightarrow>
                  (lnx, line_contrib binsearchapprox_fn tr ddwn ofactor dnwn kmax w wavn i iown
                          propto_k nadd_v st))"

text \<open>The second loop over the lines, \<^verbatim>\<open>for(ln=0; ln<nlines; ln++)\<close>, from \<open>lnx\<close> on.\<close>

function second_pass ::
  "phys_consts \<Rightarrow> (real list \<Rightarrow> real \<Rightarrow> int \<Rightarrow> int \<Rightarrow> int) \<Rightarrow> transit \<Rightarrow> int \<Rightarrow> real \<Rightarrow> real
     \<Rightarrow> real \<Rightarrow> int \<Rightarrow> int \<Rightarrow> real \<Rightarrow> widths \<Rightarrow> int \<Rightarrow> accum \<Rightarrow> accum" where
  "second_pass k binsearchapprox_fn tr r temp odwn ddwn ofactor dnwn kmax w lnx st =
     (if lnx < li_n_l tr then
        case line_step k binsearchapprox_fn tr r temp odwn ddwn ofactor dnwn kmax w lnx st of
          (lnx', st') \<Rightarrow>
            second_pass k binsearchapprox_fn tr r temp odwn ddwn ofactor dnwn kmax w (lnx' + 1) st'
      else st)"
  by pat_completeness auto
termination
proof -
  have ge: "fst p \<le> fst (coadd k tr r temp odwn i iown p)" for k tr r temp odwn i iown p
  proof (induction k tr r temp odwn i iown p rule: coadd.induct)
    case (1 k tr r temp odwn i iown lnx propto_k nadd_v)
    show ?case
      apply (subst coadd.simps)
      using 1 apply (auto simp: Let_def)
      done
  qed
  have step: "lnx \<le> fst (line_step k b tr r temp odwn ddwn ofactor dnwn kmax w lnx st)"
    for k b tr r temp odwn ddwn ofactor dnwn kmax w lnx st
    using ge [of "(lnx, x, y)" for x y]
    by (simp add: line_step_def Let_def split: prod.splits) (metis fst_conv)
  show ?thesis
  proof (relation "measure (\<lambda>(k, b, tr, r, temp, odwn, ddwn, ofactor, dnwn, kmax, w, lnx, st).
                              nat (li_n_l tr - lnx))", goal_cases)
    case 1
    show ?case by simp
  next
    case (2 k b tr r temp odwn ddwn ofactor dnwn kmax w lnx st x1 x2)
    from 2(2) [symmetric] step [of lnx k b tr r temp odwn ddwn ofactor dnwn kmax w st]
    have "lnx \<le> x1" by simp
    with 2(1) show ?case by simp
  qed
qed

declare second_pass.simps [simp del]




text \<open>
  \<^verbatim>\<open>computemolext(tr, r, kiso)\<close>. It returns its status and leaves its results in the row
  \<^verbatim>\<open>kiso[r]\<close> and in \<^verbatim>\<open>tr->ds.ex->computed[r]\<close>: the model returns the status, the array
  \<open>kiso\<close> and the flags. \<^verbatim>\<open>downsample(ktmp, kiso[r], dnwn, ratio)\<close> is defined outside
  the file; the parameter \<open>downsample\<close> maps the fine array, the row as it was, \<open>dnwn\<close>
  and the ratio to the row it leaves.
\<close>

definition computemolext ::
  "phys_consts \<Rightarrow> (real list \<Rightarrow> real \<Rightarrow> int \<Rightarrow> int \<Rightarrow> int)
     \<Rightarrow> (real list \<Rightarrow> real list \<Rightarrow> int \<Rightarrow> int \<Rightarrow> real list)
     \<Rightarrow> transit \<Rightarrow> int \<Rightarrow> real list list \<Rightarrow> bool list \<Rightarrow> int \<times> real list list \<times> bool list" where
  "computemolext k binsearchapprox_fn downsample tr r kiso computed =
     (let ktmp0 = replicate (nat (samp_n (owns tr))) 0;
          onwn = samp_n (owns tr);
          dwn = samp_d (wns tr) / real_of_int (samp_o (wns tr));
          odwn = samp_d (owns tr) / real_of_int (samp_o (owns tr));
          temp = idx (atm_t tr) r * atm_tfct tr;
          fdoppler = sqrt (2 * KB k * temp / AMU k) * SQRTLN2 k / LS k;
          florentz = sqrt (2 * KB k * temp / PI k / AMU k) / (AMU k * LS k);
          w = isotope_widths binsearchapprox_fn tr r fdoppler florentz
      in case dynamic_sampling (ndivs tr) (odivs tr) dwn (samp_o (owns tr)) odwn onwn (minwidth w) of
           (ofactor, ddwn, dnwn) \<Rightarrow>
             let kmax = first_pass k tr r temp;
                 st = second_pass k binsearchapprox_fn tr r temp odwn ddwn ofactor dnwn kmax w 0
                        \<lparr>ktmp = ktmp0, cur_idop = idop w, nadd = 0, nskip = 0, neval = 0\<rparr>;
                 kiso = kiso[nat r := downsample (ktmp st) (idx kiso r) dnwn
                                        (c_div (samp_o (owns tr)) ofactor)]
             in (0, kiso, computed[nat r := True]))"

text \<open>
  \<^verbatim>\<open>interpolmolext(tr, r, kiso)\<close>, with the same results. \<^verbatim>\<open>valueinarray\<close> is defined
  outside the file and is a parameter.
\<close>

definition interpolmolext ::
  "(real list \<Rightarrow> real \<Rightarrow> int \<Rightarrow> int \<Rightarrow> int) \<Rightarrow> (int list \<Rightarrow> int \<Rightarrow> int \<Rightarrow> int)
     \<Rightarrow> transit \<Rightarrow> int \<Rightarrow> real list list \<Rightarrow> bool list \<Rightarrow> int \<times> real list list \<times> bool list" where
  "interpolmolext binsearchapprox_fn valueinarray tr r kiso computed =
     (let temp = idx (atm_t tr) r * atm_tfct tr;
          gtemp = op_temp tr;
          itemp = binsearchapprox_fn gtemp temp 0 (op_Ntemp tr);
          itemp = (if temp < idx gtemp itemp then itemp - 1 else itemp);
          kiso =
            fold (\<lambda>i kiso.
                    fold (\<lambda>m kiso.
                            let ext = (idx (idx (idx (op_o tr ! m) itemp) r) (int i)
                                         * (idx gtemp (itemp + 1) - temp)
                                       + idx (idx (idx (op_o tr ! m) (itemp + 1)) r) (int i)
                                         * (temp - idx gtemp itemp))
                                      / (idx gtemp (itemp + 1) - idx gtemp itemp);
                                imol = valueinarray (mol_ID tr) (op_molID tr ! m) (mol_nmol tr)
                            in kiso[nat r := (idx kiso r)
                                       [i := idx kiso r ! i + idx (idx (mol_d tr) imol) r * ext]])
                         [0..<nat (op_Nmol tr)] kiso)
                 [0..<nat (op_Nwave tr)] kiso
      in (0, kiso, computed[nat r := True]))"

text \<open>
  A small configuration for the examples: one isotope of one molecule, three lines of
  that isotope at the wavenumbers 10, 10.25 and 12 (the first two less than one
  oversampled spacing apart), an oversampled grid from 9 to 13 of spacing 0.5, and the
  divisors 1, 2, 4.
\<close>

definition consts_1 :: phys_consts where
  "consts_1 = \<lparr>KB = 1, AMU = 1, SQRTLN2 = 1, LS = 1, PI = 3, SIGCTE = 1, EXPCTE = 0\<rparr>"

definition tr_3lines :: transit where
  "tr_3lines =
     \<lparr>op_profile = [[[1, 1, 1]]], op_profsize = [[1]], op_aDop = [1], op_aLor = [1],
      op_nDop = 1, op_nLor = 1, op_temp = [100, 200], op_Ntemp = 2, op_molID = [7],
      op_Nmol = 1, op_Nwave = 2, op_o = [[[[1, 1]], [[3, 3]]]],
      iso_n_i = 1, iso_imol = [0], iso_m = [1], iso_isoratio = [1], iso_z = [[1]],
      mol_nmol = 1, mol_radius = [1], mol_mass = [1], mol_d = [[1]], mol_ID = [7],
      lt_wl = [1 / 10, 4 / 41, 1 / 12], lt_wfct = 1, lt_isoid = [0, 0, 0], lt_gf = [1, 2, 4],
      lt_efct = 1, lt_elow = [0, 0, 0], li_n_l = 3,
      owns = \<lparr>samp_n = 9, samp_d = 1, samp_i = 9, samp_o = 2,
               samp_v = [9, 19 / 2, 10, 21 / 2, 11, 23 / 2, 12, 25 / 2, 13], samp_fct = 1\<rparr>,
      wns = \<lparr>samp_n = 5, samp_d = 1, samp_i = 9, samp_o = 1,
              samp_v = [9, 10, 11, 12, 13], samp_fct = 1\<rparr>,
      atm_t = [150], atm_tfct = 1, ndivs = 3, odivs = [1, 2, 4], ex_ethresh = 0\<rparr>"

text \<open>Stand-ins for the two helpers, for the examples.\<close>

definition downsample_keep :: "real list \<Rightarrow> real list \<Rightarrow> int \<Rightarrow> int \<Rightarrow> real list" where
  "downsample_keep fine row n ratio = row"

definition valueinarray_first :: "int list \<Rightarrow> int \<Rightarrow> int \<Rightarrow> int" where
  "valueinarray_first arr v n = 0"

section \<open>Properties of the persistence layer\<close>

lemma le_bytes_step:
  "(ucast (ucast w :: byte) :: PREC_RES_bits) OR push_bit 8 (take_bit m (drop_bit 8 w))
     = take_bit (8 + m) w"
  apply (rule bit_word_eqI)
  apply (simp add: bit_simps)
  apply (auto simp add: bit_simps)
  done

lemma double_of_le_bytes: "double_of_bytes (le_bytes n w) = take_bit (8 * n) w"
  by (induction n arbitrary: w) (simp_all add: le_bytes_step)

lemma length_le_bytes: "length (le_bytes n w) = n"
  by (induction n arbitrary: w) simp_all

lemma length_double_bytes: "length (double_bytes w) = 8"
  by (simp add: double_bytes_def length_le_bytes)

lemma double_of_double_bytes: "double_of_bytes (double_bytes w) = w"
  by (simp add: double_bytes_def double_of_le_bytes take_bit_word_eq_self)

lemma length_bytes_of_doubles: "length (bytes_of_doubles e) = 8 * length e"
  by (induction e) (simp_all add: bytes_of_doubles_def length_double_bytes)

lemma doubles_of_bytes_of_doubles: "doubles_of_bytes (bytes_of_doubles e) = e"
proof (induction e)
  case Nil
  show ?case by (simp add: doubles_of_bytes.simps bytes_of_doubles_def)
next
  case (Cons w e)
  have split: "bytes_of_doubles (w # e) = double_bytes w @ bytes_of_doubles e"
    by (simp add: bytes_of_doubles_def)
  have "doubles_of_bytes (double_bytes w @ bytes_of_doubles e)
          = double_of_bytes (double_bytes w) # doubles_of_bytes (bytes_of_doubles e)"
    by (subst doubles_of_bytes.simps) (simp add: length_double_bytes)
  with Cons split show ?case
    by (simp add: double_of_double_bytes)
qed

lemma flags_of_bytes_of_flags: "flags_of_bytes (bytes_of_flags c) = c"
  by (induction c) (simp_all add: flags_of_bytes_def bytes_of_flags_def)

lemma length_bytes_of_flags: "length (bytes_of_flags c) = length c"
  by (simp add: bytes_of_flags_def)

lemma uint_byte_eq_iff: "uint (a :: byte) = uint b \<longleftrightarrow> a = b"
  by (simp add: word_uint_eq_iff)

lemma strncmp_eq_0_iff:
  "length as = n \<Longrightarrow> n \<le> length bs \<Longrightarrow> 0 \<notin> set (take n bs)
     \<Longrightarrow> strncmp as bs n = 0 \<longleftrightarrow> as = take n bs"
proof (induction n arbitrary: as bs)
  case 0
  then show ?case by simp
next
  case (Suc n)
  from Suc.prems obtain a as' where as: "as = a # as'" and la: "length as' = n"
    by (cases as) auto
  from Suc.prems obtain b bs' where bs: "bs = b # bs'" and lb: "n \<le> length bs'"
    by (cases bs) auto
  from Suc.prems bs have nz: "b \<noteq> 0" "0 \<notin> set (take n bs')"
    by auto
  from Suc.IH [OF la lb nz(2)] nz(1) show ?case
    by (auto simp: as bs uint_byte_eq_iff)
qed

lemma strncmp_mn_tag:
  "length mn = 5 \<Longrightarrow> strncmp mn mn_tag 5 = 0 \<longleftrightarrow> mn = take 5 mn_tag"
  by (rule strncmp_eq_0_iff) (simp_all add: mn_tag_def)

lemma chunk_bytes_of_doubles:
  "k < length e \<Longrightarrow> take 8 (drop (8 * k) (bytes_of_doubles e)) = double_bytes (e ! k)"
proof (induction e arbitrary: k)
  case Nil
  then show ?case by simp
next
  case (Cons w e)
  have split: "bytes_of_doubles (w # e) = double_bytes w @ bytes_of_doubles e"
    by (simp add: bytes_of_doubles_def)
  show ?case
  proof (cases k)
    case 0
    then show ?thesis by (simp add: split length_double_bytes)
  next
    case (Suc j)
    with Cons.prems have "j < length e" by simp
    from Cons.IH [OF this] Suc show ?thesis
      by (simp add: split length_double_bytes)
  qed
qed

lemma save_contents:
  assumes "writable fs filename" "length e = nrad * nwav" "length c = nrad"
  shows "savefile_extinct fs filename e c nrad nwav
           = (fs\<lparr>contents := (contents fs)(filename \<mapsto> extinct_file e c)\<rparr>, [])"
  using assms
  by (simp add: savefile_extinct_def fwrite_def extinct_file_def
      length_bytes_of_doubles length_bytes_of_flags mn_tag_def)

lemma restore_extinct_file:
  assumes "contents fs filename = Some (extinct_file e c)"
    and "length e = nrad * nwav" "length c = nrad"
    and "length e' = nrad * nwav" "length c' = nrad"
  shows "restfile_extinct fs filename e' c' nrad nwav = ([], e, c)"
proof -
  let ?body = "bytes_of_doubles e @ bytes_of_flags c"
  have tag: "fread (replicate 5 0) 1 5 (extinct_file e c) = (5, take 5 mn_tag, ?body)"
    by (simp add: fread_def extinct_file_def mn_tag_def)
  have cmp: "strncmp (take 5 mn_tag) mn_tag 5 = 0"
    using strncmp_mn_tag [of "take 5 mn_tag"] by (simp add: mn_tag_def)
  have grid: "fread (bytes_of_doubles e') 8 (nrad * nwav) ?body
                = (nrad * nwav, bytes_of_doubles e, bytes_of_flags c)"
    using assms(2,4) by (simp add: fread_def length_bytes_of_doubles)
  have flags: "fread (bytes_of_flags c') 1 nrad (bytes_of_flags c)
                = (nrad, bytes_of_flags c, [])"
    using assms(3,5) by (simp add: fread_def length_bytes_of_flags)
  show ?thesis
    by (simp add: restfile_extinct_def assms(1) tag [unfolded One_nat_def] cmp grid
        flags [unfolded One_nat_def]
        doubles_of_bytes_of_doubles flags_of_bytes_of_flags)
qed

text \<open>
  Claim C1. When the save file can be opened for writing, \<^verbatim>\<open>savefile_extinct\<close> followed
  by \<^verbatim>\<open>restfile_extinct\<close> on the same path and dimensions, into any destination arrays
  of those dimensions, yields the saved grid and flags bit for bit and raises no warning.
  The file holds the 5 tag bytes, then the \<open>nrad * nwav\<close> grid values of 8 bytes each
  in row-major order (value \<open>(r, i)\<close> at offset \<open>8 * (r * nwav + i)\<close> of the body),
  then \<open>nrad\<close> flag bytes.
\<close>

theorem save_restore_roundtrip:
  assumes "writable fs filename"
    and "length e = nrad * nwav" "length c = nrad"
    and "length e' = nrad * nwav" "length c' = nrad"
    and "savefile_extinct fs filename e c nrad nwav = (fs', evs)"
  shows "restfile_extinct fs' filename e' c' nrad nwav = ([], e, c)
       \<and> evs = []
       \<and> contents fs' filename = Some (take 5 mn_tag @ bytes_of_doubles e @ bytes_of_flags c)
       \<and> length (take 5 mn_tag @ bytes_of_doubles e @ bytes_of_flags c) = 5 + 8 * (nrad * nwav) + nrad
       \<and> (\<forall>r<nrad. \<forall>i<nwav. take 8 (drop (8 * (r * nwav + i)) (bytes_of_doubles e))
                               = double_bytes (e ! (r * nwav + i)))
       \<and> (\<forall>r<nrad. bytes_of_flags c ! r = (if c ! r then 1 else 0))"
proof -
  from assms(1,2,3,6) have fs': "fs' = fs\<lparr>contents := (contents fs)(filename \<mapsto> extinct_file e c)\<rparr>"
    and evs: "evs = []"
    by (simp_all add: save_contents)
  then have stored: "contents fs' filename = Some (extinct_file e c)"
    by simp
  have idx: "r * nwav + i < length e" if "r < nrad" "i < nwav" for r i
  proof -
    from that have "r * nwav + i < r * nwav + nwav" by simp
    also have "\<dots> = Suc r * nwav" by simp
    also from that have "\<dots> \<le> nrad * nwav" by (intro mult_le_mono1) simp
    finally show ?thesis by (simp add: assms(2))
  qed
  have rowmajor: "\<forall>r<nrad. \<forall>i<nwav. take 8 (drop (8 * (r * nwav + i)) (bytes_of_doubles e))
                               = double_bytes (e ! (r * nwav + i))"
    by (intro allI impI chunk_bytes_of_doubles idx)
  have len: "length (take 5 mn_tag @ bytes_of_doubles e @ bytes_of_flags c)
               = 5 + 8 * (nrad * nwav) + nrad"
    by (simp add: length_bytes_of_doubles length_bytes_of_flags mn_tag_def assms(2,3))
  have flagbytes: "\<forall>r<nrad. bytes_of_flags c ! r = (if c ! r then 1 else 0)"
    by (simp add: bytes_of_flags_def assms(3))
  from stored have stored': "contents fs' filename
      = Some (take 5 mn_tag @ bytes_of_doubles e @ bytes_of_flags c)"
    by (simp add: extinct_file_def)
  from restore_extinct_file [OF stored assms(2,3,4,5)] evs stored' len rowmajor flagbytes
  show ?thesis by blast
qed

theorem save_restore_roundtrip_witness:
  "restfile_extinct (fst (savefile_extinct empty_disk ''ex.dat'' [0x3FF0000000000000, 1] [True] 1 2))
       ''ex.dat'' [0, 0] [False] 1 2
     = ([], [0x3FF0000000000000, 1], [True])
   \<and> contents (fst (savefile_extinct empty_disk ''ex.dat'' [0x3FF0000000000000, 1] [True] 1 2))
       ''ex.dat''
     = Some (take 5 mn_tag @ bytes_of_doubles [0x3FF0000000000000, 1] @ bytes_of_flags [True])"
  using save_restore_roundtrip [where fs = empty_disk and filename = "''ex.dat''"
      and e = "[0x3FF0000000000000, 1]" and c = "[True]" and nrad = 1 and nwav = 2
      and e' = "[0, 0]" and c' = "[False]"
      and fs' = "fst (savefile_extinct empty_disk ''ex.dat'' [0x3FF0000000000000, 1] [True] 1 2)"
      and evs = "snd (savefile_extinct empty_disk ''ex.dat'' [0x3FF0000000000000, 1] [True] 1 2)"]
  by (simp add: empty_disk_def)

text \<open>
  Claim C8. On a path without a file, on a file shorter than 5 bytes and on a file whose
  first 5 bytes are not the tag, \<^verbatim>\<open>restfile_extinct\<close> raises exactly one warning (which
  does not end the run) and leaves the grid and the flags as they were.
\<close>

theorem restore_invalid_untouched:
  assumes "case contents fs filename of None \<Rightarrow> True
           | Some fp \<Rightarrow> length fp < 5 \<or> take 5 fp \<noteq> take 5 mn_tag"
  shows "\<exists>msg. restfile_extinct fs filename e c nrad nwav = ([Warning msg], e, c)"
proof (cases "contents fs filename")
  case None
  then show ?thesis by (simp add: restfile_extinct_def)
next
  case (Some fp)
  show ?thesis
  proof (cases "length fp < 5")
    case True
    then show ?thesis
      by (simp add: restfile_extinct_def Some fread_def)
  next
    case False
    with assms Some have ne: "take 5 fp \<noteq> take 5 mn_tag" by simp
    from False have rd: "fread (replicate 5 0) 1 5 fp = (5, take 5 fp, drop 5 fp)"
      by (simp add: fread_def)
    from False have "strncmp (take 5 fp) mn_tag 5 = 0 \<longleftrightarrow> take 5 fp = take 5 mn_tag"
      by (intro strncmp_mn_tag) simp
    with ne have "strncmp (take 5 fp) mn_tag 5 \<noteq> 0" by simp
    then show ?thesis
      by (simp add: restfile_extinct_def Some rd [unfolded One_nat_def])
  qed
qed

theorem restore_invalid_untouched_witness:
  "(\<exists>msg. restfile_extinct empty_disk ''ex.dat'' [7, 8] [True] 1 2 = ([Warning msg], [7, 8], [True]))
   \<and> (\<exists>msg. restfile_extinct (empty_disk\<lparr>contents := (\<lambda>_. Some [0x40, 0x45, 0x40])\<rparr>)
               ''ex.dat'' [7, 8] [True] 1 2 = ([Warning msg], [7, 8], [True]))
   \<and> (\<exists>msg. restfile_extinct
               (empty_disk\<lparr>contents := (\<lambda>_. Some [0x40, 0x45, 0x40, 0x53, 0x41, 1, 2, 3])\<rparr>)
               ''ex.dat'' [7, 8] [True] 1 2 = ([Warning msg], [7, 8], [True]))"
  using restore_invalid_untouched [of empty_disk "''ex.dat''" "[7, 8]" "[True]" 1 2]
    restore_invalid_untouched [of "empty_disk\<lparr>contents := (\<lambda>_. Some [0x40, 0x45, 0x40])\<rparr>"
      "''ex.dat''" "[7, 8]" "[True]" 1 2]
    restore_invalid_untouched
      [of "empty_disk\<lparr>contents := (\<lambda>_. Some [0x40, 0x45, 0x40, 0x53, 0x41, 1, 2, 3])\<rparr>"
      "''ex.dat''" "[7, 8]" "[True]" 1 2]
  by (simp add: empty_disk_def mn_tag_def)

section \<open>Properties of the profile synthesizer\<close>

lemma int_of_long_odd: "odd v \<Longrightarrow> odd (int_of_long v)"
proof -
  assume o: "odd v"
  have "even ((2::int) ^ 32)" "even ((2::int) ^ 31)" by simp_all
  then have "even ((v + 2 ^ 31) mod 2 ^ 32) \<longleftrightarrow> even (v + 2 ^ 31)"
    by (metis dvd_mod_iff)
  with o show ?thesis unfolding int_of_long_def by simp
qed

lemma int_of_long_id: "- (2 ^ 31) \<le> v \<Longrightarrow> v < 2 ^ 31 \<Longrightarrow> int_of_long v = v"
  unfolding int_of_long_def by simp

lemma long_of_double_id:
  "- (2 ^ 31) \<le> 2 * c_trunc x + 1 \<Longrightarrow> 2 * c_trunc x + 1 < 2 ^ 31 \<Longrightarrow> long_of_double x = c_trunc x"
  unfolding long_of_double_def by simp

lemma c_div_2: "0 \<le> n \<Longrightarrow> c_div n 2 = n div 2"
  by (simp add: c_div_def)

lemma getprofile_nvgt_rounded:
  "getprofile_nvgt fl dwn dop lor ta nwave
     = spec_adjust nwave (int_of_long (2 * long_of_double (rounded_quotient fl dwn dop lor ta) + 1))"
proof -
  have mx: "(if dop < lor then lor else dop) = max dop lor" by (simp add: max_def)
  show ?thesis
    by (simp add: getprofile_nvgt_def spec_adjust_def rounded_quotient_def Let_def mx)
qed

lemma getprofile_nvgt_bounds:
  assumes "1 \<le> nwave"
  shows "odd (getprofile_nvgt fl dwn dop lor ta nwave)"
    and "3 \<le> getprofile_nvgt fl dwn dop lor ta nwave"
    and "getprofile_nvgt fl dwn dop lor ta nwave \<le> 2 * nwave + 1"
proof -
  let ?v = "int_of_long (2 * long_of_double (rounded_quotient fl dwn dop lor ta) + 1)"
  have oddv: "odd ?v" by (rule int_of_long_odd) simp
  then have "?v \<noteq> 2" by auto
  with oddv assms show "odd (getprofile_nvgt fl dwn dop lor ta nwave)"
    and "3 \<le> getprofile_nvgt fl dwn dop lor ta nwave"
    and "getprofile_nvgt fl dwn dop lor ta nwave \<le> 2 * nwave + 1"
    unfolding getprofile_nvgt_rounded spec_adjust_def Let_def by auto
qed

lemma getprofile_nvgt_fits:
  assumes "- (2 ^ 31) \<le> 2 * c_trunc (rounded_quotient fl dwn dop lor ta) + 1"
    and "2 * c_trunc (rounded_quotient fl dwn dop lor ta) + 1 < 2 ^ 31"
  shows "getprofile_nvgt fl dwn dop lor ta nwave
           = spec_adjust nwave (2 * c_trunc (rounded_quotient fl dwn dop lor ta) + 1)"
  unfolding getprofile_nvgt_rounded
  by (simp add: long_of_double_id [OF assms] int_of_long_id [OF assms])

lemma c_trunc_half:
  "0 \<le> x + 1/2 \<Longrightarrow> c_trunc (x + 1/2) = round x"
  "x + 1/2 < 0 \<Longrightarrow> c_trunc (x + 1/2) \<le> 0 \<and> round x \<le> c_trunc (x + 1/2)"
  by (auto simp: c_trunc_def round_def ceiling_le_iff intro: floor_le_ceiling)

lemma getprofile_nvgt_exact:
  assumes q: "rounded_quotient fl dwn dop lor ta = max dop lor * ta / dwn + 1 / 2"
    and lo: "- (2 ^ 31) \<le> 2 * round (max dop lor * ta / dwn) + 1"
    and hi: "2 * round (max dop lor * ta / dwn) + 1 < 2 ^ 31"
  shows "getprofile_nvgt fl dwn dop lor ta nwave = spec_point_count dwn dop lor ta nwave"
proof -
  let ?x = "max dop lor * ta / dwn"
  show ?thesis
  proof (cases "0 \<le> ?x + 1/2")
    case True
    then have t: "c_trunc (?x + 1/2) = round ?x" by (rule c_trunc_half)
    from lo hi have "getprofile_nvgt fl dwn dop lor ta nwave
        = spec_adjust nwave (2 * c_trunc (rounded_quotient fl dwn dop lor ta) + 1)"
      by (intro getprofile_nvgt_fits) (simp_all add: q t)
    then show ?thesis by (simp add: q t spec_point_count_def)
  next
    case False
    then have neg: "?x + 1/2 < 0" by simp
    from c_trunc_half(2) [OF neg] have k: "c_trunc (?x + 1/2) \<le> 0" "round ?x \<le> c_trunc (?x + 1/2)"
      by simp_all
    with lo have "getprofile_nvgt fl dwn dop lor ta nwave
        = spec_adjust nwave (2 * c_trunc (rounded_quotient fl dwn dop lor ta) + 1)"
      by (intro getprofile_nvgt_fits) (simp_all add: q)
    with k show ?thesis
      by (simp add: q spec_point_count_def spec_adjust_def Let_def)
  qed
qed

text \<open>
  Claim C2, as amended. For positive Doppler and Lorentz widths and a maximal half
  size \<open>nwave \<ge> 1\<close> (with \<open>2 * nwave + 1\<close> inside \<^verbatim>\<open>int\<close> and a nonzero spacing), whatever
  the rounding of the floating-point operations: the point count of \<^verbatim>\<open>getprofile\<close> is
  odd, at least 3 and at most \<open>2 * nwave + 1\<close>; the profile has that many entries and
  the returned half size is the count divided by 2, unless \<^verbatim>\<open>voigtn\<close> reports an error.
  With \<open>q\<close> the floating-point value of \<open>w / dwn + 0.5\<close>, \<open>w = max dop lor * ta\<close>, the count
  is \<open>2 * trunc q + 1\<close>, forced to 3 below 2 and clamped to \<open>2 * nwave + 1\<close> above
  \<open>2 * nwave\<close>, whenever \<open>2 * trunc q + 1\<close> fits the 32-bit \<^verbatim>\<open>int\<close> it is stored in; where
  \<open>q\<close> is the exact value this is \<open>2 * round (w / dwn) + 1\<close>, forced and clamped. Nothing
  is stated for a value that does not fit.
\<close>

theorem getprofile_point_count:
  assumes "0 < dop" "0 < lor" "1 \<le> nwave" "2 * nwave + 1 < 2 ^ 31" "dwn \<noteq> 0"
  shows "odd (getprofile_nvgt fl dwn dop lor ta nwave)
       \<and> 3 \<le> getprofile_nvgt fl dwn dop lor ta nwave
       \<and> getprofile_nvgt fl dwn dop lor ta nwave \<le> 2 * nwave + 1
       \<and> (- (2 ^ 31) \<le> 2 * c_trunc (rounded_quotient fl dwn dop lor ta) + 1
            \<and> 2 * c_trunc (rounded_quotient fl dwn dop lor ta) + 1 < 2 ^ 31
          \<longrightarrow> getprofile_nvgt fl dwn dop lor ta nwave
                = spec_adjust nwave (2 * c_trunc (rounded_quotient fl dwn dop lor ta) + 1))
       \<and> (rounded_quotient fl dwn dop lor ta = max dop lor * ta / dwn + 1 / 2
            \<and> - (2 ^ 31) \<le> 2 * round (max dop lor * ta / dwn) + 1
            \<and> 2 * round (max dop lor * ta / dwn) + 1 < 2 ^ 31
          \<longrightarrow> getprofile_nvgt fl dwn dop lor ta nwave = spec_point_count dwn dop lor ta nwave)
       \<and> getprofile fl voigtn voigt_maxelements dwn dop lor ta nwave =
           (let n = getprofile_nvgt fl dwn dop lor ta nwave
            in case voigtn n (fl (dwn * of_int (n div 2))) lor dop (n > voigt_maxelements) of
                 (j, pr) \<Rightarrow> if j = 1 then Inr (map pr [0..<nat n], n div 2)
                            else Inl (Critical ''voigtn2() returned error code''))
       \<and> (\<forall>pr h. getprofile fl voigtn voigt_maxelements dwn dop lor ta nwave = Inr (pr, h)
            \<longrightarrow> int (length pr) = getprofile_nvgt fl dwn dop lor ta nwave
              \<and> h = getprofile_nvgt fl dwn dop lor ta nwave div 2)"
proof -
  let ?n = "getprofile_nvgt fl dwn dop lor ta nwave"
  note b = getprofile_nvgt_bounds [OF assms(3), of fl dwn dop lor ta]
  from b(2) have pos: "0 \<le> ?n" "\<not> ?n < 0" by simp_all
  have run: "getprofile fl voigtn voigt_maxelements dwn dop lor ta nwave =
           (let n = ?n
            in case voigtn n (fl (dwn * of_int (n div 2))) lor dop (n > voigt_maxelements) of
                 (j, pr) \<Rightarrow> if j = 1 then Inr (map pr [0..<nat n], n div 2)
                            else Inl (Critical ''voigtn2() returned error code''))"
    using pos by (simp add: getprofile_def Let_def c_div_2 split: prod.splits)
  have len: "\<forall>pr h. getprofile fl voigtn voigt_maxelements dwn dop lor ta nwave = Inr (pr, h)
            \<longrightarrow> int (length pr) = ?n \<and> h = ?n div 2"
    unfolding run Let_def using pos by (auto split: prod.splits if_splits)
  from b run len getprofile_nvgt_fits [of fl dwn dop lor ta nwave]
    getprofile_nvgt_exact [of fl dwn dop lor ta nwave]
  show ?thesis
    by blast
qed

theorem getprofile_point_count_witness:
  "getprofile_nvgt (\<lambda>x. x) (1/2) 1 2 3 4 = 9
   \<and> spec_point_count (1/2) 1 2 3 4 = 9
   \<and> getprofile (\<lambda>x. x) voigtn_flat 1000 (1/2) 1 2 3 4 = Inr (replicate 9 1, 4)"
proof -
  have n: "getprofile_nvgt (\<lambda>x. x) (1/2) 1 2 3 4 = 9"
    by (simp add: getprofile_nvgt_def int_of_long_def long_of_double_def c_trunc_def)
  have q: "rounded_quotient (\<lambda>x. x) (1/2) 1 2 3 = 25 / 2"
    by (simp add: rounded_quotient_def)
  have "[0..<9] = [0, 1, 2, 3, 4, 5, 6, 7, 8]" by (simp add: upt_rec)
  then have m: "map (\<lambda>i. 1::real) [0..<9] = replicate 9 1" by (simp add: numeral_eq_Suc)
  from getprofile_point_count [of 1 2 4 "1/2" "\<lambda>x. x" 3 voigtn_flat 1000] show ?thesis
    by (simp add: n m q voigtn_flat_def)
qed

text \<open>
  Claim C2 as stated fails where the value does not fit: a Doppler width of \<open>2\<^sup>3\<^sup>0\<close>
  spacings (every operation exact) with \<open>nwave = 5\<close> gives the count 3, where
  \<open>2 * round (w / dwn) + 1\<close> clamped gives 11.
\<close>

theorem getprofile_narrowing_counterexample:
  "getprofile_nvgt (\<lambda>x. x) 1 (2 ^ 30) 2 1 5 = 3 \<and> spec_point_count 1 (2 ^ 30) 2 1 5 = 11"
  by (simp add: getprofile_nvgt_def spec_point_count_def spec_adjust_def int_of_long_def
      long_of_double_def c_trunc_def Let_def)

text \<open>
  Beyond the range of \<^verbatim>\<open>long\<close> the conversion gives the least \<^verbatim>\<open>long\<close>, whose double plus
  one has the low 32 bits of 1: the count is 3.
\<close>

lemma getprofile_nvgt_beyond_long:
  "getprofile_nvgt (\<lambda>x. x) 1 (2 ^ 70) 2 1 5 = 3"
  by (simp add: getprofile_nvgt_def int_of_long_def long_of_double_def c_trunc_def Let_def)

section \<open>Properties of the bracketing searches\<close>

lemma bisect_range: "lo \<le> bisect arr lo hi val \<and> (lo < hi \<longrightarrow> bisect arr lo hi val < hi)"
proof (induction arr lo hi val rule: bisect.induct)
  case (1 arr lo hi val)
  show ?case
  proof (cases "hi - lo \<le> 1")
    case True
    then show ?thesis by (simp add: bisect.simps [of arr lo hi val])
  next
    case False
    define mid where "mid = (lo + hi) div 2"
    from False have m: "lo < mid" "mid < hi" by (simp_all add: mid_def)
    from "1.IH" [OF False mid_def] m show ?thesis
      by (subst (1 2) bisect.simps) (auto simp: Let_def mid_def [symmetric] False)
  qed
qed

lemma bisect_lower: "arr ! lo \<le> val \<Longrightarrow> arr ! bisect arr lo hi val \<le> val"
proof (induction arr lo hi val rule: bisect.induct)
  case (1 arr lo hi val)
  show ?case
  proof (cases "hi - lo \<le> 1")
    case True
    with "1.prems" show ?thesis by (simp add: bisect.simps [of arr lo hi val])
  next
    case False
    define mid where "mid = (lo + hi) div 2"
    from "1.IH" [OF False mid_def] "1.prems" show ?thesis
      by (subst bisect.simps) (auto simp: Let_def mid_def [symmetric] False)
  qed
qed

lemma bisect_upper:
  "lo < hi \<Longrightarrow> bisect arr lo hi val + 1 = hi \<or> val < arr ! (bisect arr lo hi val + 1)"
proof (induction arr lo hi val rule: bisect.induct)
  case (1 arr lo hi val)
  show ?case
  proof (cases "hi - lo \<le> 1")
    case True
    then have "bisect arr lo hi val = lo" by (simp add: bisect.simps [of arr lo hi val])
    with True "1.prems" show ?thesis by auto
  next
    case False
    define mid where "mid = (lo + hi) div 2"
    from False have m: "lo < mid" "mid < hi" by (simp_all add: mid_def)
    from False have nle: "\<not> hi - lo \<le> Suc 0" by simp
    show ?thesis
    proof (cases "val < arr ! mid")
      case True
      then have eq: "bisect arr lo hi val = bisect arr lo mid val"
        by (subst bisect.simps) (simp add: Let_def mid_def [symmetric] nle)
      from "1.IH"(1) [OF False mid_def True m(1)] True show ?thesis
        unfolding eq by auto
    next
      case F: False
      then have eq: "bisect arr lo hi val = bisect arr mid hi val"
        by (subst bisect.simps) (simp add: Let_def mid_def [symmetric] nle)
      from "1.IH"(2) [OF False mid_def F m(2)] show ?thesis
        unfolding eq by auto
    qed
  qed
qed

lemma bisect_clamp_low:
  "sorted arr \<Longrightarrow> hi \<le> length arr \<Longrightarrow> val < arr ! lo \<Longrightarrow> bisect arr lo hi val = lo"
proof (induction arr lo hi val rule: bisect.induct)
  case (1 arr lo hi val)
  show ?case
  proof (cases "hi - lo \<le> 1")
    case True
    then show ?thesis by (simp add: bisect.simps [of arr lo hi val])
  next
    case False
    define mid where "mid = (lo + hi) div 2"
    from False have m: "lo < mid" "mid < hi" by (simp_all add: mid_def)
    with "1.prems" have "arr ! lo \<le> arr ! mid"
      by (intro sorted_nth_mono) auto
    with "1.prems" have lt: "val < arr ! mid" by simp
    from False have nle: "\<not> hi - lo \<le> Suc 0" by simp
    from lt have eq: "bisect arr lo hi val = bisect arr lo mid val"
      by (subst bisect.simps) (simp add: Let_def mid_def [symmetric] nle)
    from "1.IH"(1) [OF False mid_def lt] "1.prems" m show ?thesis
      unfolding eq by simp
  qed
qed

lemma bisect_clamp_high:
  "sorted arr \<Longrightarrow> hi \<le> length arr \<Longrightarrow> lo < hi \<Longrightarrow> arr ! (hi - 1) < val
     \<Longrightarrow> bisect arr lo hi val = hi - 1"
proof (induction arr lo hi val rule: bisect.induct)
  case (1 arr lo hi val)
  show ?case
  proof (cases "hi - lo \<le> 1")
    case True
    with "1.prems" show ?thesis by (simp add: bisect.simps [of arr lo hi val])
  next
    case False
    define mid where "mid = (lo + hi) div 2"
    from False have m: "lo < mid" "mid < hi" by (simp_all add: mid_def)
    with "1.prems" have "arr ! mid \<le> arr ! (hi - 1)"
      by (intro sorted_nth_mono) auto
    with "1.prems" have ge: "\<not> val < arr ! mid" by simp
    from False have nle: "\<not> hi - lo \<le> Suc 0" by simp
    from ge have eq: "bisect arr lo hi val = bisect arr mid hi val"
      by (subst bisect.simps) (simp add: Let_def mid_def [symmetric] nle)
    from "1.IH"(2) [OF False mid_def ge] "1.prems" m show ?thesis
      unfolding eq by simp
  qed
qed

text \<open>
  Claim C6. On an ascending grid \<open>g\<close> and a target between its first and last element,
  the width-grid lookup over the whole grid returns an index \<open>k\<close> with \<open>g[k] \<le> target\<close>
  and either \<open>k + 1\<close> the length of the grid or \<open>g[k + 1] > target\<close>. Over any index range
  \<open>lo \<dots> hi - 1\<close> of the grid, a target below \<open>g[lo]\<close> gives \<open>lo\<close> and a target above
  \<open>g[hi - 1]\<close> gives \<open>hi - 1\<close>.
\<close>

theorem binsearchapprox_floor_index:
  assumes "sorted g" "g \<noteq> []"
  shows "(g ! 0 \<le> target \<and> target \<le> last g \<longrightarrow>
           (let k = nat (binsearchapprox g target 0 (int (length g)))
            in k < length g \<and> g ! k \<le> target \<and> (k + 1 = length g \<or> target < g ! (k + 1))))
       \<and> (0 \<le> lo \<and> lo < hi \<and> hi \<le> int (length g) \<longrightarrow>
             (target < g ! nat lo \<longrightarrow> binsearchapprox g target lo hi = lo)
           \<and> (g ! nat (hi - 1) < target \<longrightarrow> binsearchapprox g target lo hi = hi - 1))"
proof -
  from assms(2) have len: "0 < length g" by simp
  have inner: "g ! 0 \<le> target \<Longrightarrow>
           (let k = nat (binsearchapprox g target 0 (int (length g)))
            in k < length g \<and> g ! k \<le> target \<and> (k + 1 = length g \<or> target < g ! (k + 1)))"
    using bisect_range [of 0 g "length g" target] bisect_lower [of g 0 target "length g"]
      bisect_upper [OF len, of g target] len
    by (simp add: binsearchapprox_def Let_def)
  have clamp: "(target < g ! nat lo \<longrightarrow> binsearchapprox g target lo hi = lo)
           \<and> (g ! nat (hi - 1) < target \<longrightarrow> binsearchapprox g target lo hi = hi - 1)"
    if "0 \<le> lo \<and> lo < hi \<and> hi \<le> int (length g)"
  proof -
    from that have h: "nat hi \<le> length g" "nat lo < nat hi" "nat (hi - 1) = nat hi - 1"
      "int (nat hi - 1) = hi - 1" "int (nat lo) = lo"
      by auto
    have low: "binsearchapprox g target lo hi = lo" if "target < g ! nat lo"
      using bisect_clamp_low [OF assms(1) h(1) that] h(5) by (simp add: binsearchapprox_def)
    have high: "binsearchapprox g target lo hi = hi - 1" if "g ! nat (hi - 1) < target"
      using bisect_clamp_high [OF assms(1) h(1) h(2), of target] that h(3,4)
      by (simp add: binsearchapprox_def)
    from low high show ?thesis by blast
  qed
  from inner clamp show ?thesis by blast
qed

theorem binsearchapprox_floor_index_witness:
  "(let k = nat (binsearchapprox [1, 2, 4, 8] 5 0 (int (length [1, 2, 4, 8 :: real])))
    in k < length [1, 2, 4, 8 :: real] \<and> [1, 2, 4, 8] ! k \<le> (5 :: real)
       \<and> (k + 1 = length [1, 2, 4, 8 :: real] \<or> 5 < [1, 2, 4, 8 :: real] ! (k + 1)))
   \<and> binsearchapprox [1, 2, 4, 8] 5 0 2 = 1
   \<and> binsearchapprox [1, 2, 4, 8] 0 1 4 = 1"
  using binsearchapprox_floor_index [of "[1, 2, 4, 8]" 5 0 2]
    binsearchapprox_floor_index [of "[1, 2, 4, 8]" 0 1 4]
  by simp

section \<open>Properties of \<^verbatim>\<open>totaltau1\<close>\<close>



text \<open>
  Claim C9. Whenever \<^verbatim>\<open>totaltau1\<close> returns a value, the radius array and the extinction
  array are on return what they were at the call: the sample at the closest-approach
  bin, overwritten with the interpolated extinction and with \<open>r0\<close>, has been put back.
\<close>

theorem totaltau1_restores_arrays:
  assumes "totaltau1 binsearch_fn interp_parab integ b rad refr ex nrad = Inr (res, rad', ex')"
  shows "rad' = rad \<and> ex' = ex"
  using assms
  by (auto simp: totaltau1_def Let_def split: if_splits)

theorem totaltau1_restores_arrays_witness:
  "\<exists>res. totaltau1 binsearch (\<lambda>x y r. 9) (\<lambda>xs ys a b. 3) (5/2) [1, 2, 3, 4] 1 [5, 6, 7, 8] 4
          = Inr (res, [1, 2, 3, 4], [5, 6, 7, 8])"
proof -
  have rs: "binsearch [1, 2, 3, 4] 0 3 (5/2) = 1"
    by (simp add: binsearch_def bisect.simps)
  obtain res rad' ex' where ok:
    "totaltau1 binsearch (\<lambda>x y r. 9) (\<lambda>xs ys a b. 3) (5/2) [1, 2, 3, 4] 1 [5, 6, 7, 8] 4
       = Inr (res, rad', ex')"
    by (simp add: totaltau1_def Let_def rs)
  from totaltau1_restores_arrays [OF ok] ok show ?thesis by simp
qed

section \<open>Properties of \<^verbatim>\<open>modulation1\<close>\<close>

lemma mod_fill_run:
  assumes "0 \<le> i" "lst < samp_n ip" "lst < int (length tau)" "lst < int (length (samp_v ip))"
  shows "mod_fill tau ip lst i (ipv, rinteg) =
           Inr (max i (lst + 1),
                (\<lambda>j. if i \<le> int j \<and> int j \<le> lst
                      then Some (samp_v ip ! nat (lst - int j) * samp_fct ip) else ipv j),
                (\<lambda>j. if i \<le> int j \<and> int j \<le> lst
                      then Some (exp (- (tau ! j)) * (samp_v ip ! nat (lst - int j) * samp_fct ip))
                      else rinteg j))"
  using assms
proof (induction tau ip lst i "(ipv, rinteg)" arbitrary: ipv rinteg rule: mod_fill.induct)
  case (1 tau ip lst i ipv rinteg)
  show ?case
  proof (cases "i \<le> lst")
    case False
    then show ?thesis
      by (subst mod_fill.simps) (auto simp: max_def fun_eq_iff)
  next
    case True
    with "1.prems" have ok: "\<not> \<not> (0 \<le> i \<and> i < samp_n ip \<and> i < int (length tau)
                \<and> lst - i < int (length (samp_v ip)))"
      by auto
    from "1.prems" have next0: "0 \<le> i + 1" by simp
    note IH = "1.hyps" [OF True ok refl next0 "1.prems"(2,3,4)]
    have f1: "(\<lambda>j. if i + 1 \<le> int j \<and> int j \<le> lst
                   then Some (samp_v ip ! nat (lst - int j) * samp_fct ip)
                   else (ipv(nat i := Some (samp_v ip ! nat (lst - i) * samp_fct ip))) j)
            = (\<lambda>j. if i \<le> int j \<and> int j \<le> lst
                   then Some (samp_v ip ! nat (lst - int j) * samp_fct ip) else ipv j)"
      using True "1.prems"(1) by (intro ext) (auto simp: nat_eq_iff)
    have f2: "(\<lambda>j. if i + 1 \<le> int j \<and> int j \<le> lst
                   then Some (exp (- (tau ! j)) * (samp_v ip ! nat (lst - int j) * samp_fct ip))
                   else (rinteg(nat i := Some (exp (- (tau ! nat i))
                            * (samp_v ip ! nat (lst - i) * samp_fct ip)))) j)
            = (\<lambda>j. if i \<le> int j \<and> int j \<le> lst
                   then Some (exp (- (tau ! j)) * (samp_v ip ! nat (lst - int j) * samp_fct ip))
                   else rinteg j)"
      using True "1.prems"(1) by (intro ext) (auto simp: nat_eq_iff)
    from True have mx: "max (i + 1) (lst + 1) = max i (lst + 1)" by simp
    show ?thesis
      apply (subst mod_fill.simps)
      using True ok IH
      apply (simp add: Let_def f1 f2 mx)
      done
  qed
qed

lemma those_map_Some:
  "(\<And>x. x \<in> set xs \<Longrightarrow> g x = Some (f x)) \<Longrightarrow> those (map g xs) = Some (map f xs)"
  by (induction xs) simp_all


lemma modulation1_valid_run:
  assumes l: "lst = samp_n ip - 1"
    and bt: "samp_n ip \<le> int (length tau)" and bv: "samp_n ip \<le> int (length (samp_v ip))"
    and xs: "xs = map (\<lambda>j. samp_v ip ! nat (lst - int j) * samp_fct ip) [0..<nat (samp_n ip)]"
    and ys: "ys = map (\<lambda>j. exp (- (tau ! j)) * xs ! j) [0..<nat (samp_n ip)]"
    and srad: "srad = starrad sg * starradfct sg"
  shows "modulation1 integ tau lst toomuch ip sg =
           (if samp_n ip < 3
            then Inl (Critical ''Condition failed, less than 3 items for radial integration'')
            else Inr ((2 * integ xs ys (xs ! 0) (xs ! (nat (samp_n ip) - 1)) + srad * srad
                        - xs ! (nat (samp_n ip) - 1) * xs ! (nat (samp_n ip) - 1)
                        + exp (- toomuch) * xs ! 0 * xs ! 0) * (1 / srad / srad)))"
proof -
  let ?f = "\<lambda>j. if 0 \<le> int j \<and> int j \<le> lst
                then Some (samp_v ip ! nat (lst - int j) * samp_fct ip) else None"
  let ?g = "\<lambda>j. if 0 \<le> int j \<and> int j \<le> lst
                then Some (exp (- (tau ! j)) * (samp_v ip ! nat (lst - int j) * samp_fct ip))
                else None"
  let ?i = "max 0 (lst + 1)"
  from l bt bv have "lst < samp_n ip" "lst < int (length tau)" "lst < int (length (samp_v ip))"
    by simp_all
  from mod_fill_run [OF order_refl this]
  have fill: "mod_fill tau ip lst 0 (\<lambda>_. None, \<lambda>_. None) = Inr (?i, ?f, ?g)" .
  have lst': "(if lst + 2 > samp_n ip - 1 then samp_n ip - 1 else lst + 2) = lst"
    using l by simp
  have pad: "mod_pad ip lst ?i (?f, ?g) = Inr (?i, ?f, ?g)"
    by (subst mod_pad.simps) simp
  have cnt: "lst + 1 = samp_n ip" using l by simp
  have tx: "those (map ?f [0..<nat (lst + 1)]) = Some xs"
    unfolding xs cnt by (rule those_map_Some) (use l in auto)
  have "map (\<lambda>j. exp (- (tau ! j)) * (samp_v ip ! nat (lst - int j) * samp_fct ip))
           [0..<nat (samp_n ip)] = ys"
    unfolding ys xs by (rule map_cong) simp_all
  moreover have "those (map ?g [0..<nat (samp_n ip)])
      = Some (map (\<lambda>j. exp (- (tau ! j)) * (samp_v ip ! nat (lst - int j) * samp_fct ip))
           [0..<nat (samp_n ip)])"
    by (rule those_map_Some) (use l in auto)
  ultimately have ty: "those (map ?g [0..<nat (lst + 1)]) = Some ys"
    unfolding cnt by simp
  show ?thesis
    unfolding modulation1_def Let_def fill sum.case prod.case lst' pad tx ty option.case
    by (simp add: cnt srad)
qed

lemma modulation1_too_few:
  assumes "min (lst + 2) (samp_n ip - 1) + 1 < 3"
  shows "modulation1 integ tau lst toomuch ip sg \<noteq> Inr r"
  using assms
  by (auto simp: modulation1_def Let_def min_def split: sum.splits if_splits)


text \<open>
  Claim C4, as amended. When every impact-parameter sample is valid (\<open>lst\<close> is the last
  index, so that no element is padded), \<^verbatim>\<open>modulation1\<close> ends the run with the critical
  error of too few items when there are fewer than 3 samples, and otherwise returns
  \<open>(2 * integral + R\<^sup>2 - b_last\<^sup>2 + exp (- toomuch) * b_first\<^sup>2) / R\<^sup>2\<close>, where the integral is
  that of the spline through \<open>(b\<^sub>i, exp (- tau\<^sub>i) * b\<^sub>i)\<close>. With all \<open>tau\<^sub>i = 0\<close> and the exact
  integral \<open>(b_last\<^sup>2 - b_first\<^sup>2) / 2\<close> of the integrand \<open>b\<close> this is
  \<open>1 - (1 - exp (- toomuch)) * b_first\<^sup>2 / R\<^sup>2\<close>: it is 1 up to the disc below the innermost
  sample, which the formula counts as opaque. For any \<open>lst\<close>, no value is returned when
  the count \<open>min (lst + 2) (n - 1) + 1\<close> is below 3.
\<close>

theorem modulation1_all_samples_valid:
  assumes "lst = samp_n ip - 1"
    and "samp_n ip \<le> int (length tau)" and "samp_n ip \<le> int (length (samp_v ip))"
    and "xs = map (\<lambda>j. samp_v ip ! nat (lst - int j) * samp_fct ip) [0..<nat (samp_n ip)]"
    and "ys = map (\<lambda>j. exp (- (tau ! j)) * xs ! j) [0..<nat (samp_n ip)]"
    and "srad = starrad sg * starradfct sg"
    and "b_first = xs ! 0" and "b_last = xs ! (nat (samp_n ip) - 1)"
  shows "(samp_n ip < 3 \<longrightarrow> modulation1 integ tau lst toomuch ip sg
            = Inl (Critical ''Condition failed, less than 3 items for radial integration''))
       \<and> (3 \<le> samp_n ip \<longrightarrow> modulation1 integ tau lst toomuch ip sg
            = Inr ((2 * integ xs ys b_first b_last + srad * srad - b_last * b_last
                      + exp (- toomuch) * b_first * b_first) * (1 / srad / srad)))
       \<and> (3 \<le> samp_n ip \<and> (\<forall>j < nat (samp_n ip). tau ! j = 0) \<and> srad \<noteq> 0
            \<and> integ xs xs b_first b_last = (b_last * b_last - b_first * b_first) / 2
          \<longrightarrow> modulation1 integ tau lst toomuch ip sg
            = Inr (1 - (1 - exp (- toomuch)) * (b_first * b_first) / (srad * srad)))
       \<and> (min (lst0 + 2) (samp_n ip - 1) + 1 < 3
          \<longrightarrow> modulation1 integ tau lst0 toomuch ip sg \<noteq> Inr r)"
proof -
  note run = modulation1_valid_run [OF assms(1-6), of integ toomuch]
  have few: "samp_n ip < 3 \<longrightarrow> modulation1 integ tau lst toomuch ip sg
            = Inl (Critical ''Condition failed, less than 3 items for radial integration'')"
    by (simp add: run)
  have enough: "3 \<le> samp_n ip \<longrightarrow> modulation1 integ tau lst toomuch ip sg
            = Inr ((2 * integ xs ys b_first b_last + srad * srad - b_last * b_last
                      + exp (- toomuch) * b_first * b_first) * (1 / srad / srad))"
    by (simp add: run assms(7,8))
  have transparent: "modulation1 integ tau lst toomuch ip sg
            = Inr (1 - (1 - exp (- toomuch)) * (b_first * b_first) / (srad * srad))"
    if n: "3 \<le> samp_n ip" and t: "\<forall>j < nat (samp_n ip). tau ! j = 0" and s: "srad \<noteq> 0"
      and i: "integ xs xs b_first b_last = (b_last * b_last - b_first * b_first) / 2"
  proof -
    have "ys = map (\<lambda>j. xs ! j) [0..<nat (samp_n ip)]"
      unfolding assms(5) by (rule map_cong) (use t in auto)
    also have "\<dots> = xs"
      by (rule map_nth [of xs, unfolded assms(4) length_map length_upt diff_zero,
            folded assms(4)])
    finally have "ys = xs" .
    with enough n i have "modulation1 integ tau lst toomuch ip sg
        = Inr ((2 * ((b_last * b_last - b_first * b_first) / 2) + srad * srad - b_last * b_last
                      + exp (- toomuch) * b_first * b_first) * (1 / srad / srad))"
      by simp
    also have "(2 * ((b_last * b_last - b_first * b_first) / 2) + srad * srad - b_last * b_last
                      + exp (- toomuch) * b_first * b_first) * (1 / srad / srad)
        = 1 - (1 - exp (- toomuch)) * (b_first * b_first) / (srad * srad)"
      using s by (simp add: field_simps)
    finally show ?thesis .
  qed
  from few enough transparent modulation1_too_few [of lst0 ip integ tau toomuch sg r]
  show ?thesis by blast
qed

theorem modulation1_all_samples_valid_witness:
  "modulation1 (\<lambda>xs ys a b. trapezoid xs ys) [0, 0, 0] 2 100 ip_765 star_10
     = Inr ((75 + 25 * exp (- 100)) / 100)
   \<and> modulation1 (\<lambda>xs ys a b. trapezoid xs ys) [0, 0, 0] 1 100 (ip_765\<lparr>samp_n := 2\<rparr>) star_10
     = Inl (Critical ''Condition failed, less than 3 items for radial integration'')
   \<and> modulation1 (\<lambda>xs ys a b. trapezoid xs ys) [0, 0, 0] (- 1) 100 ip_765 star_10 \<noteq> Inr 1"
  using modulation1_all_samples_valid [where lst = 2 and ip = ip_765 and tau = "[0, 0, 0]"
      and xs = "[5, 6, 7]" and ys = "[5, 6, 7]" and srad = 10 and sg = star_10
      and b_first = 5 and b_last = 7 and integ = "\<lambda>xs ys a b. trapezoid xs ys"
      and toomuch = 100 and ?lst0.0 = "- 1" and r = 1]
    modulation1_all_samples_valid [where lst = 1 and ip = "ip_765\<lparr>samp_n := 2\<rparr>"
      and tau = "[0, 0, 0]" and xs = "[6, 7]" and ys = "[6, 7]" and srad = 10 and sg = star_10
      and b_first = 6 and b_last = 7 and integ = "\<lambda>xs ys a b. trapezoid xs ys"
      and toomuch = 100 and ?lst0.0 = "- 1" and r = 1]
  by (simp add: ip_765_def star_10_def upt_rec)

lemma fill765: "mod_fill [0, 0, 0] ip_765 2 0 (\<lambda>_. None, \<lambda>_. None)
   = Inr (3, (\<lambda>_. None)(0 := Some 5, 1 := Some 6, 2 := Some 7), (\<lambda>_. None)(0 := Some 5, 1 := Some 6, 2 := Some 7))"
  apply (subst mod_fill.simps, simp add: ip_765_def Let_def)
  apply (subst mod_fill.simps, simp add: ip_765_def Let_def)
  apply (subst mod_fill.simps, simp add: ip_765_def Let_def)
  apply (subst mod_fill.simps, simp add: ip_765_def Let_def)
  done

lemma upt3: "[0..<3] = [0, 1, 2]" by (simp add: upt_rec)

lemma mod765: "modulation1 (\<lambda>xs ys a b. trapezoid xs ys) [0, 0, 0] 2 100 ip_765 star_10
     = Inr ((75 + 25 * exp (- 100)) / 100)"
  unfolding modulation1_def fill765
  apply (simp add: Let_def)
  apply (simp add: ip_765_def mod_pad.simps upt3 star_10_def)
  done

lemma exp_m100: "exp (- 100 :: real) < 1 / 25"
proof -
  have "1 + (100::real) \<le> exp 100" by (rule exp_ge_add_one_self)
  then have "exp (- 100 :: real) \<le> 1 / 101"
    by (simp add: exp_minus field_simps)
  then show ?thesis by simp
qed

text \<open>
  Claim C4 as stated fails for a transparent atmosphere over the impact parameters
  5, 6, 7 and a star of radius 10: the exact integral of \<open>b\<close> is 12, and the result is
  \<open>0.75 + 0.25 * exp (- 100)\<close>, not 1.
\<close>

theorem modulation1_transparent_counterexample:
  "modulation1 (\<lambda>xs ys a b. trapezoid xs ys) [0, 0, 0] 2 100 ip_765 star_10
     = Inr ((75 + 25 * exp (- 100)) / 100)
   \<and> (75 + 25 * exp (- 100)) / 100 < (76 / 100 :: real)"
  using mod765 exp_m100 by simp

text \<open>
  When not every sample is valid, the padding loop stops one element short of the
  count that is handed to the spline: with 5 samples of which 2 are valid, element 2
  is padded, element 3 is never stored, and 4 elements are integrated.
\<close>

lemma modulation1_reads_unwritten_sample:
  "modulation1 integ [0, 0] 1 toomuch ip_98765 sg = Inl Uninitialised"
  by (simp add: modulation1_def Let_def mod_fill.simps mod_pad.simps ip_98765_def upt_rec)

section \<open>Properties of the extinction grid builder\<close>















text \<open>
  Claim C10. For a layer index \<open>r\<close> inside the flag array, \<^verbatim>\<open>computemolext\<close> and
  \<^verbatim>\<open>interpolmolext\<close> return the status 0 and leave \<^verbatim>\<open>computed[r]\<close> set, whatever the
  lines, the opacities and the helpers \<^verbatim>\<open>binsearchapprox\<close>, \<^verbatim>\<open>downsample\<close> and
  \<^verbatim>\<open>valueinarray\<close> are; both functions are total.
\<close>

theorem molext_status_and_flag:
  assumes "0 \<le> r" "nat r < length computed"
  shows "fst (computemolext k binsearchapprox_fn downsample tr r kiso computed) = 0
       \<and> snd (snd (computemolext k binsearchapprox_fn downsample tr r kiso computed)) ! nat r
       \<and> fst (interpolmolext binsearchapprox_fn valueinarray tr r kiso computed) = 0
       \<and> snd (snd (interpolmolext binsearchapprox_fn valueinarray tr r kiso computed)) ! nat r"
  using assms
  by (simp add: computemolext_def interpolmolext_def Let_def split: prod.splits)

theorem molext_status_and_flag_witness:
  "fst (computemolext consts_1 binsearchapprox downsample_keep tr_3lines 0 [[0, 0, 0, 0, 0]] [False]) = 0
   \<and> snd (snd (computemolext consts_1 binsearchapprox downsample_keep tr_3lines 0
                   [[0, 0, 0, 0, 0]] [False])) ! 0
   \<and> fst (interpolmolext binsearchapprox valueinarray_first tr_3lines 0 [[0, 0]] [False]) = 0
   \<and> snd (snd (interpolmolext binsearchapprox valueinarray_first tr_3lines 0 [[0, 0]] [False])) ! 0"
  using molext_status_and_flag [of 0 "[False]" consts_1 binsearchapprox downsample_keep tr_3lines
      "[[0, 0, 0, 0, 0]]" valueinarray_first]
    molext_status_and_flag [of 0 "[False]" consts_1 binsearchapprox downsample_keep tr_3lines
      "[[0, 0]]" valueinarray_first]
  by simp

end
